theory Spec2Isabelle
  imports Complex_Main "HOL-Library.Sublist"
begin

section \<open>Python strings\<close>

text \<open>
  Strings are character lists. The helpers below follow the Python string methods the
  services call (\<^verbatim>\<open>str.lower\<close>, \<^verbatim>\<open>sub in text\<close>, \<^verbatim>\<open>str.split()\<close>,
  \<^verbatim>\<open>' '.join\<close>) on ASCII text.
\<close>

definition upper_letters :: string where
  "upper_letters = ''ABCDEFGHIJKLMNOPQRSTUVWXYZ''"

definition lower_letters :: string where
  "lower_letters = ''abcdefghijklmnopqrstuvwxyz''"

definition lower_char :: "char \<Rightarrow> char" where
  "lower_char c = (case map_of (zip upper_letters lower_letters) c of Some d \<Rightarrow> d | None \<Rightarrow> c)"

definition lower :: "string \<Rightarrow> string" where
  "lower s = map lower_char s"

text \<open>\<^verbatim>\<open>sub in text\<close>: some suffix of the text starts with \<open>sub\<close>.\<close>

fun contains :: "string \<Rightarrow> string \<Rightarrow> bool" where
  "contains sub [] = (sub = [])"
| "contains sub (c # cs) = (prefix sub (c # cs) \<or> contains sub cs)"

text \<open>
  The characters \<^verbatim>\<open>str.split()\<close> and \<^verbatim>\<open>str.isspace\<close> treat as white space
  (space, tab, line feed, vertical tab, form feed, carriage return and the four
  separators 0x1C to 0x1F).
\<close>

definition is_space :: "char \<Rightarrow> bool" where
  "is_space c = (c \<in> set [CHR '' '', CHR 0x09, CHR 0x0A, CHR 0x0B, CHR 0x0C, CHR 0x0D,
                             CHR 0x1C, CHR 0x1D, CHR 0x1E, CHR 0x1F])"

text \<open>
  The maximal runs of characters that are not separators, left to right. The third
  argument is the run being read.
\<close>

fun tokens :: "(char \<Rightarrow> bool) \<Rightarrow> string \<Rightarrow> string \<Rightarrow> string list" where
  "tokens sep [] w = (if w = [] then [] else [w])"
| "tokens sep (c # cs) w =
     (if sep c then (if w = [] then tokens sep cs [] else w # tokens sep cs [])
      else tokens sep cs (w @ [c]))"

text \<open>\<^verbatim>\<open>text.split()\<close>: the maximal runs of non-space characters.\<close>

definition split :: "string \<Rightarrow> string list" where
  "split text = tokens is_space text []"

text \<open>\<^verbatim>\<open>text.strip()\<close>.\<close>

definition strip :: "string \<Rightarrow> string" where
  "strip text = rev (dropWhile is_space (rev (dropWhile is_space text)))"

text \<open>
  \<^verbatim>\<open>re.findall(r'\b\w+\b', text)\<close>: the maximal runs of word characters (letters,
  digits and the underscore).
\<close>

definition digits :: string where
  "digits = ''0123456789''"

definition is_word_char :: "char \<Rightarrow> bool" where
  "is_word_char c = (c \<in> set (lower_letters @ upper_letters @ digits @ ''_''))"

definition findall_words :: "string \<Rightarrow> string list" where
  "findall_words text = tokens (\<lambda>c. \<not> is_word_char c) text []"

text \<open>
  \<^verbatim>\<open>text.count(sub)\<close>: the number of non-overlapping occurrences, scanning from the
  left; for the empty string Python counts every position.
\<close>

fun count_from :: "string \<Rightarrow> string \<Rightarrow> nat" where
  "count_from sub [] = 0"
| "count_from sub (c # cs) =
     (if prefix sub (c # cs) then Suc (count_from sub (drop (length sub - 1) cs))
      else count_from sub cs)"

definition count_sub :: "string \<Rightarrow> string \<Rightarrow> nat" where
  "count_sub text sub = (if sub = [] then Suc (length text) else count_from sub text)"

text \<open>\<^verbatim>\<open>sep.join(parts)\<close>.\<close>

fun join :: "string \<Rightarrow> string list \<Rightarrow> string" where
  "join sep [] = []"
| "join sep [w] = w"
| "join sep (w # v # ws) = w @ sep @ join sep (v # ws)"

section \<open>Query classifier (agent orchestrator)\<close>

datatype AgentType = GENERAL | ANALYTICAL | CREATIVE | TECHNICAL | RESEARCH | SUMMARY

datatype QueryComplexity = SIMPLE | MEDIUM | MODERATE | COMPLEX | VERY_COMPLEX | EXPERT

fun agent_value :: "AgentType \<Rightarrow> string" where
  "agent_value GENERAL = ''general''"
| "agent_value ANALYTICAL = ''analytical''"
| "agent_value CREATIVE = ''creative''"
| "agent_value TECHNICAL = ''technical''"
| "agent_value RESEARCH = ''research''"
| "agent_value SUMMARY = ''summary''"

fun complexity_value :: "QueryComplexity \<Rightarrow> string" where
  "complexity_value SIMPLE = ''simple''"
| "complexity_value MEDIUM = ''medium''"
| "complexity_value MODERATE = ''moderate''"
| "complexity_value COMPLEX = ''complex''"
| "complexity_value VERY_COMPLEX = ''very_complex''"
| "complexity_value EXPERT = ''expert''"

record QueryAnalysis =
  complexity :: QueryComplexity
  agent_type :: AgentType
  confidence :: real
  reasoning :: string
  estimated_tokens :: int

text \<open>The two indicator dictionaries of \<^verbatim>\<open>analyze_query\<close>, in insertion order.\<close>

definition complexity_indicators :: "(QueryComplexity \<times> string list) list" where
  "complexity_indicators =
     [(SIMPLE, [''what'', ''when'', ''where'', ''who'', ''how'', ''define'', ''explain'']),
      (MODERATE, [''compare'', ''describe'', ''list'', ''outline'', ''summarize'']),
      (COMPLEX, [''analyze'', ''evaluate'', ''investigate'', ''examine'', ''assess'']),
      (EXPERT, [''design'', ''optimize'', ''implement'', ''architect'', ''strategize''])]"

definition agent_indicators :: "(AgentType \<times> string list) list" where
  "agent_indicators =
     [(ANALYTICAL, [''analyze'', ''compare'', ''evaluate'', ''calculate'', ''statistics'', ''data'']),
      (CREATIVE, [''creative'', ''innovative'', ''brainstorm'', ''ideas'', ''design'', ''concept'']),
      (TECHNICAL, [''code'', ''programming'', ''technical'', ''system'', ''architecture'',
                   ''implementation'']),
      (RESEARCH, [''research'', ''investigate'', ''study'', ''comprehensive'', ''thorough'']),
      (SUMMARY, [''summarize'', ''summary'', ''brief'', ''overview'', ''executive''])]"

text \<open>The loop that keeps the first complexity family with an indicator in the query.\<close>

fun determine_complexity :: "(QueryComplexity \<times> string list) list \<Rightarrow> string \<Rightarrow> QueryComplexity" where
  "determine_complexity [] query_lower = SIMPLE"
| "determine_complexity ((level, indicators) # rest) query_lower =
     (if list_ex (\<lambda>indicator. contains indicator query_lower) indicators then level
      else determine_complexity rest query_lower)"

text \<open>\<^verbatim>\<open>sum(1 for indicator in indicators if indicator in query_lower)\<close>.\<close>

definition count_matches :: "string list \<Rightarrow> string \<Rightarrow> nat" where
  "count_matches indicators query_lower =
     length (filter (\<lambda>indicator. contains indicator query_lower) indicators)"

text \<open>
  The loop over the agent families; the state is the pair
  \<^verbatim>\<open>(agent_type, max_matches)\<close> (the first component is written \<open>chosen\<close>),
  replaced only by a strictly larger count.
\<close>

fun determine_agent ::
  "(AgentType \<times> string list) list \<Rightarrow> string \<Rightarrow> AgentType \<times> nat \<Rightarrow> AgentType \<times> nat" where
  "determine_agent [] query_lower st = st"
| "determine_agent ((agent, indicators) # rest) query_lower (chosen, max_matches) =
     (let matches = count_matches indicators query_lower
      in if matches > max_matches then determine_agent rest query_lower (agent, matches)
         else determine_agent rest query_lower (chosen, max_matches))"

definition analyze_query :: "string \<Rightarrow> QueryAnalysis" where
  "analyze_query query =
     (let query_lower = lower query;
          complexity = determine_complexity complexity_indicators query_lower;
          (agent_type, max_matches) = determine_agent agent_indicators query_lower (GENERAL, 0)
      in \<lparr> complexity = complexity,
           agent_type = agent_type,
           confidence = min (9 / 10) (real max_matches / 3 + 3 / 10),
           reasoning = ''Query complexity: '' @ complexity_value complexity
                       @ '', Agent type: '' @ agent_value agent_type,
           estimated_tokens = (3 * int (length (split query))) div 2 \<rparr>)"

text \<open>
  The hit count of every specialized family on a query, in dictionary order; the general
  type has no indicator list.
\<close>

definition family_counts :: "string \<Rightarrow> (AgentType \<times> nat) list" where
  "family_counts query =
     map (\<lambda>(agent, indicators). (agent, count_matches indicators (lower query))) agent_indicators"


definition max_hits :: "string \<Rightarrow> nat" where
  "max_hits query = fold max (map snd (family_counts query)) 0"

text \<open>Two or more specialized families reach the maximal hit count.\<close>

definition tied_for_maximum :: "string \<Rightarrow> bool" where
  "tied_for_maximum query =
     (2 \<le> length (filter (\<lambda>(agent, c). c = max_hits query) (family_counts query)))"

definition zero_in_every_family :: "string \<Rightarrow> bool" where
  "zero_in_every_family query = list_all (\<lambda>(agent, c). c = 0) (family_counts query)"

text \<open>The first specialized family, in dictionary order, that reaches the maximum.\<close>

definition first_maximal_family :: "string \<Rightarrow> AgentType" where
  "first_maximal_family query =
     (case filter (\<lambda>(agent, c). c = max_hits query) (family_counts query) of
        [] \<Rightarrow> GENERAL
      | (agent, c) # _ \<Rightarrow> agent)"

text \<open>The decimal digits of a natural number, as \<^verbatim>\<open>str(n)\<close> and an f-string print it.\<close>

fun str_nat :: "nat \<Rightarrow> string" where
  "str_nat n = (if n < 10 then [digits ! n] else str_nat (n div 10) @ [digits ! (n mod 10)])"

section \<open>Python values and errors\<close>

text \<open>
  The arguments the services receive untyped: \<^verbatim>\<open>top_k\<close> may arrive as
  \<^verbatim>\<open>None\<close>, as an integer, as a string, or as an object that is no number (a dict
  stands for those).
\<close>

datatype py_value = PyNone | PyInt int | PyStr string | PyDict

datatype py_error = ValueError | TypeError | AttributeError | KeyError | ZeroDivisionError
  | ConnectionError string

text \<open>\<^verbatim>\<open>d.get(key, default)\<close> on a key that may be absent.\<close>

definition dict_get :: "'a option \<Rightarrow> 'a \<Rightarrow> 'a" where
  "dict_get entry dflt = (case entry of None \<Rightarrow> dflt | Some v \<Rightarrow> v)"

text \<open>
  \<^verbatim>\<open>int(s)\<close> on a string: surrounding white space is dropped, then an optional sign
  and decimal digits, single underscores allowed between digits.
\<close>

definition is_digit :: "char \<Rightarrow> bool" where
  "is_digit c = (c \<in> set digits)"

definition digit_val :: "char \<Rightarrow> nat" where
  "digit_val c = (case map_of (zip digits [0 ..< 10]) c of Some d \<Rightarrow> d | None \<Rightarrow> 0)"

fun parse_digits :: "string \<Rightarrow> nat \<Rightarrow> nat option" where
  "parse_digits [] acc = Some acc"
| "parse_digits [c] acc = (if is_digit c then Some (10 * acc + digit_val c) else None)"
| "parse_digits (c # d # cs) acc =
     (if is_digit c then parse_digits (d # cs) (10 * acc + digit_val c)
      else if c = CHR ''_'' \<and> is_digit d then parse_digits cs (10 * acc + digit_val d)
      else None)"

definition parse_unsigned :: "string \<Rightarrow> nat option" where
  "parse_unsigned s =
     (case s of [] \<Rightarrow> None
      | c # cs \<Rightarrow> if is_digit c then parse_digits cs (digit_val c) else None)"

definition int_of_str :: "string \<Rightarrow> int option" where
  "int_of_str s =
     (case strip s of
        [] \<Rightarrow> None
      | c # cs \<Rightarrow>
          if c = CHR ''-'' then map_option (\<lambda>n. - int n) (parse_unsigned cs)
          else if c = CHR ''+'' then map_option int (parse_unsigned cs)
          else map_option int (parse_unsigned (c # cs)))"

text \<open>\<^verbatim>\<open>int(x)\<close>.\<close>

fun py_int :: "py_value \<Rightarrow> py_error + int" where
  "py_int PyNone = Inl TypeError"
| "py_int (PyInt n) = Inr n"
| "py_int (PyStr s) = (case int_of_str s of None \<Rightarrow> Inl ValueError | Some n \<Rightarrow> Inr n)"
| "py_int PyDict = Inl TypeError"

text \<open>\<^verbatim>\<open>x * 2\<close>.\<close>

fun py_times_two :: "py_value \<Rightarrow> py_error + py_value" where
  "py_times_two PyNone = Inl TypeError"
| "py_times_two (PyInt n) = Inr (PyInt (n * 2))"
| "py_times_two (PyStr s) = Inr (PyStr (s @ s))"
| "py_times_two PyDict = Inl TypeError"

text \<open>
  \<^verbatim>\<open>xs[:k]\<close>: a negative bound counts from the end, \<^verbatim>\<open>None\<close> keeps the whole
  list, anything that is no integer raises \<^verbatim>\<open>TypeError\<close>.
\<close>

fun py_slice_to :: "'a list \<Rightarrow> py_value \<Rightarrow> py_error + 'a list" where
  "py_slice_to xs PyNone = Inr xs"
| "py_slice_to xs (PyInt k) =
     Inr (if 0 \<le> k then take (nat k) xs else take (length xs - nat (- k)) xs)"
| "py_slice_to xs (PyStr s) = Inl TypeError"
| "py_slice_to xs PyDict = Inl TypeError"

text \<open>\<^verbatim>\<open>sorted(xs, key=score, reverse=True)\<close>: stable, largest score first.\<close>

definition sorted_desc :: "('a \<Rightarrow> real) \<Rightarrow> 'a list \<Rightarrow> 'a list" where
  "sorted_desc score xs = sort_key (\<lambda>x. - score x) xs"

section \<open>Similarity engine\<close>

text \<open>
  A document is a dictionary; the record has the keys the services read, each of which
  may be absent (\<open>doc_metadata_score\<close> is the \<^verbatim>\<open>score\<close> entry of the metadata).
\<close>

record document =
  doc_id :: string
  doc_title :: "string option"
  doc_content :: "string option"
  doc_text :: "string option"
  doc_source :: "string option"
  doc_chunk_id :: "string option"
  doc_document_id :: "string option"
  doc_metadata_score :: "real option"
  doc_similarity_score :: "real option"

definition stop_words :: "string list" where
  "stop_words =
     [''the'', ''a'', ''an'', ''and'', ''or'', ''but'', ''in'', ''on'', ''at'', ''to'', ''for'',
      ''of'', ''with'', ''by'', ''is'', ''are'', ''was'', ''were'', ''be'', ''been'', ''being'',
      ''have'', ''has'', ''had'', ''do'', ''does'', ''did'', ''will'', ''would'', ''could'',
      ''should'', ''may'', ''might'', ''must'', ''can'', ''this'', ''that'', ''these'',
      ''those'', ''i'', ''you'', ''he'', ''she'', ''it'', ''we'', ''they'', ''me'', ''him'',
      ''her'', ''us'', ''them'', ''my'', ''your'', ''his'', ''her'', ''its'', ''our'', ''their'']"

definition preprocess_text :: "string \<Rightarrow> string list" where
  "preprocess_text text =
     filter (\<lambda>word. word \<notin> set stop_words \<and> length word > 2) (findall_words (lower text))"

text \<open>\<^verbatim>\<open>doc.get('content', '') + ' ' + doc.get('title', '')\<close>.\<close>

definition content_and_title :: "document \<Rightarrow> string" where
  "content_and_title doc = dict_get (doc_content doc) [] @ '' '' @ dict_get (doc_title doc) []"

definition calculate_jaccard_similarity :: "string \<Rightarrow> document list \<Rightarrow> (document \<times> real) list" where
  "calculate_jaccard_similarity query_text documents =
     (let query_words = set (preprocess_text query_text)
      in if query_words = {} then map (\<lambda>doc. (doc, 0)) documents
         else map (\<lambda>doc.
                let doc_words = set (preprocess_text (content_and_title doc))
                in if doc_words = {} then (doc, 0)
                   else let intersection = card (query_words \<inter> doc_words);
                            union = card (query_words \<union> doc_words)
                        in (doc, if union > 0 then real intersection / real union else 0))
              documents)"

text \<open>
  \<^verbatim>\<open>_cosine_similarity\<close> on two vectors given as dictionaries (association lists);
  a key absent from one of them counts as zero there.
\<close>

definition cosine_similarity :: "(string \<times> real) list \<Rightarrow> (string \<times> real) list \<Rightarrow> real" where
  "cosine_similarity vec1 vec2 =
     (let all_keys = remdups (map fst vec1 @ map fst vec2);
          dot_product = (\<Sum>key\<leftarrow>all_keys. dict_get (map_of vec1 key) 0 * dict_get (map_of vec2 key) 0);
          magnitude1 = sqrt (\<Sum>key\<leftarrow>all_keys. dict_get (map_of vec1 key) 0 * dict_get (map_of vec1 key) 0);
          magnitude2 = sqrt (\<Sum>key\<leftarrow>all_keys. dict_get (map_of vec2 key) 0 * dict_get (map_of vec2 key) 0)
      in if magnitude1 = 0 \<or> magnitude2 = 0 then 0
         else dot_product / (magnitude1 * magnitude2))"

text \<open>\<^verbatim>\<open>Counter(words).get(word, 0) / len(words) if words else 0\<close>.\<close>

definition term_frequency :: "string list \<Rightarrow> string \<Rightarrow> real" where
  "term_frequency words word =
     (if words \<noteq> [] then real (count_list words word) / real (length words) else 0)"

definition calculate_tf_idf_similarity :: "string \<Rightarrow> document list \<Rightarrow> (document \<times> real) list" where
  "calculate_tf_idf_similarity query_text documents =
     (if documents = [] then []
      else let query_words = preprocess_text query_text
           in if query_words = [] then map (\<lambda>doc. (doc, 0)) documents
              else let doc_words = map (\<lambda>doc. preprocess_text (content_and_title doc)) documents;
                       all_words = remdups (query_words @ concat doc_words);
                       doc_count = length documents;
                       idf = (\<lambda>word. ln (real doc_count /
                                 real (1 + length (filter (\<lambda>words. word \<in> set words) doc_words))));
                       query_vector = map (\<lambda>word. (word, term_frequency query_words word * idf word))
                                        all_words
                   in map (\<lambda>(doc, words).
                          let doc_vector = map (\<lambda>word. (word, term_frequency words word * idf word))
                                             all_words
                          in (doc, cosine_similarity query_vector doc_vector))
                        (zip documents doc_words))"

definition calculate_title_similarity :: "string \<Rightarrow> string \<Rightarrow> real" where
  "calculate_title_similarity query title =
     (if title = [] then 0
      else if contains (lower query) (lower title) then 1
      else let query_words = set (preprocess_text query);
               title_words = set (preprocess_text title)
           in if query_words = {} \<or> title_words = {} then 0
              else real (card (query_words \<inter> title_words)) / real (card query_words))"

definition calculate_content_similarity :: "string list \<Rightarrow> string \<Rightarrow> real" where
  "calculate_content_similarity query_words content =
     (if content = [] \<or> query_words = [] then 0
      else let content_words = preprocess_text content
           in if content_words = [] then 0
              else let matches = (\<Sum>word\<leftarrow>query_words. count_list content_words word);
                       normalized_score = real matches / sqrt (real (length content_words))
                   in min normalized_score 1)"

definition calculate_keyword_similarity :: "string list \<Rightarrow> string \<Rightarrow> real" where
  "calculate_keyword_similarity query_words content =
     (if content = [] \<or> query_words = [] then 0
      else let content_lower = lower content;
               query_phrase = join '' '' query_words
           in if contains query_phrase content_lower then 1
              else let matches = (\<Sum>word\<leftarrow>query_words.
                                     if contains word content_lower
                                     then min (real (count_sub content_lower word) * (3 / 10)) 1
                                     else 0);
                       total_words = length query_words
                   in if total_words > 0 then matches / real total_words else 0)"

definition calculate_semantic_similarity :: "string \<Rightarrow> document list \<Rightarrow> (document \<times> real) list" where
  "calculate_semantic_similarity query_text documents =
     (let query_words = preprocess_text query_text
      in if query_words = [] then map (\<lambda>doc. (doc, 0)) documents
         else map (\<lambda>doc.
                let content = dict_get (doc_content doc) [];
                    title = dict_get (doc_title doc) [];
                    title_similarity = calculate_title_similarity query_text title;
                    content_similarity = calculate_content_similarity query_words content;
                    keyword_similarity = calculate_keyword_similarity query_words content
                in (doc, title_similarity * (4 / 10) + content_similarity * (4 / 10)
                         + keyword_similarity * (2 / 10)))
              documents)"

text \<open>The weights dictionary of the hybrid score and its default.\<close>

record weights =
  tfidf :: real
  jaccard :: real
  semantic :: real

definition default_weights :: weights where
  "default_weights = \<lparr> tfidf = 4 / 10, jaccard = 2 / 10, semantic = 4 / 10 \<rparr>"

definition calculate_hybrid_similarity ::
  "string \<Rightarrow> document list \<Rightarrow> weights option \<Rightarrow> (document \<times> real) list" where
  "calculate_hybrid_similarity query_text documents weights_arg =
     (if documents = [] then []
      else let weights = dict_get weights_arg default_weights;
               tfidf_sims = calculate_tf_idf_similarity query_text documents;
               jaccard_sims = calculate_jaccard_similarity query_text documents;
               semantic_sims = calculate_semantic_similarity query_text documents
           in map (\<lambda>i. (documents ! i,
                         snd (tfidf_sims ! i) * tfidf weights
                         + snd (jaccard_sims ! i) * jaccard weights
                         + snd (semantic_sims ! i) * semantic weights))
                [0 ..< length documents])"

text \<open>
  The first \<^verbatim>\<open>try\<close> block of \<^verbatim>\<open>rank_documents\<close>: \<^verbatim>\<open>ValueError\<close> and
  \<^verbatim>\<open>TypeError\<close> are caught, any other exception leaves the function.
\<close>

definition coerce_top_k :: "py_value \<Rightarrow> py_error + int" where
  "coerce_top_k top_k =
     (case (if top_k \<noteq> PyNone then py_int top_k else Inr 5) of
        Inr k \<Rightarrow> Inr (if k \<le> 0 then 5 else k)
      | Inl ValueError \<Rightarrow> Inr 5
      | Inl TypeError \<Rightarrow> Inr 5
      | Inl e \<Rightarrow> Inl e)"

definition rank_documents ::
  "(document \<times> real) list \<Rightarrow> py_value \<Rightarrow> real option \<Rightarrow> py_error + document list" where
  "rank_documents similarities top_k_arg threshold_arg =
     (case coerce_top_k top_k_arg of
        Inl e \<Rightarrow> Inl e
      | Inr top_k \<Rightarrow>
          let similarity_threshold = dict_get threshold_arg (1 / 10);
              filtered = filter (\<lambda>(doc, score). score \<ge> similarity_threshold) similarities;
              sorted_docs = sorted_desc snd filtered
          in Inr (map (\<lambda>(doc, score). doc\<lparr>doc_similarity_score := Some score\<rparr>)
                    (take (nat top_k) sorted_docs)))"



section \<open>RAG engine: document retrieval and similarity search\<close>

text \<open>
  The collaborators of \<^verbatim>\<open>similarity_search\<close> are the document store and the cache.
  The environment records what a call to each of them does: the store query returns
  rows or raises, a cache read returns a value, nothing, or raises, and a cache write
  may raise. The cache key is built from the query, \<^verbatim>\<open>top_k\<close> and the algorithm.
\<close>

record db_row =
  row_id :: string
  row_title :: "string option"
  row_content :: "string option"

type_synonym cache_key = "string \<times> py_value \<times> string"

record rag_environment =
  execute_query :: "py_error + db_row list"
  cache_get :: "cache_key \<Rightarrow> py_error + document list option"
  cache_set_raises :: "cache_key \<Rightarrow> bool"

text \<open>\<^verbatim>\<open>x or default\<close> on a string that may be \<^verbatim>\<open>None\<close>.\<close>

definition str_or :: "string option \<Rightarrow> string \<Rightarrow> string" where
  "str_or x dflt = (case x of None \<Rightarrow> dflt | Some s \<Rightarrow> if s = [] then dflt else s)"

definition row_has_content :: "db_row \<Rightarrow> bool" where
  "row_has_content row =
     (case row_content row of None \<Rightarrow> False | Some c \<Rightarrow> c \<noteq> [] \<and> strip c \<noteq> [])"

definition get_all_documents :: "rag_environment \<Rightarrow> document list" where
  "get_all_documents env =
     (case execute_query env of
        Inl e \<Rightarrow> []
      | Inr rows \<Rightarrow>
          map (\<lambda>row. \<lparr> doc_id = row_id row,
                        doc_title = Some (str_or (row_title row) ''Untitled''),
                        doc_content = row_content row,
                        doc_text = None,
                        doc_source = None,
                        doc_chunk_id = None,
                        doc_document_id = None,
                        doc_metadata_score = None,
                        doc_similarity_score = None \<rparr>)
            (filter row_has_content rows))"

text \<open>
  \<^verbatim>\<open>similarity_search\<close>. Every exception inside the body ends in the handler, which
  returns the empty list; a cached value is returned only when it is truthy.
\<close>

definition similarity_search ::
  "rag_environment \<Rightarrow> string \<Rightarrow> py_value \<Rightarrow> real option \<Rightarrow> string \<Rightarrow> document list" where
  "similarity_search env query top_k_arg threshold_arg algorithm_name =
     (let similarity_threshold = dict_get threshold_arg (5 / 100);
          cache_key = (query, top_k_arg, algorithm_name)
      in case cache_get env cache_key of
           Inl e \<Rightarrow> []
         | Inr (Some (d # ds)) \<Rightarrow> d # ds
         | Inr _ \<Rightarrow>
             let documents = get_all_documents env
             in if documents = [] then []
                else let similarities =
                           (if algorithm_name = ''tfidf''
                            then calculate_tf_idf_similarity query documents
                            else if algorithm_name = ''jaccard''
                            then calculate_jaccard_similarity query documents
                            else if algorithm_name = ''semantic''
                            then calculate_semantic_similarity query documents
                            else calculate_hybrid_similarity query documents None)
                     in case rank_documents similarities top_k_arg (Some similarity_threshold) of
                          Inl e \<Rightarrow> []
                        | Inr results \<Rightarrow> if cache_set_raises env cache_key then [] else results)"

text \<open>
  \<^verbatim>\<open>RAGEngine.search(query, top_k, **kwargs)\<close>: the keyword arguments that are not
  passed take the defaults of \<^verbatim>\<open>similarity_search\<close>.
\<close>

definition rag_search ::
  "rag_environment \<Rightarrow> string \<Rightarrow> py_value \<Rightarrow> real option \<Rightarrow> string option \<Rightarrow> py_error + document list" where
  "rag_search env query top_k_arg threshold_arg algorithm_arg =
     Inr (similarity_search env query top_k_arg threshold_arg (dict_get algorithm_arg ''hybrid''))"

text \<open>\<^verbatim>\<open>_validate_top_k\<close> of the RAG engine, on an integer.\<close>

definition validate_top_k :: "int \<Rightarrow> int" where
  "validate_top_k k = (if k < 0 then 1 else if k = 0 then 1 else if k > 50 then 50 else k)"

section \<open>Advanced RAG engine\<close>

datatype SearchAlgorithm = SEMANTIC | KEYWORD | HYBRID | FUZZY | CONTEXTUAL

fun algorithm_value :: "SearchAlgorithm \<Rightarrow> string" where
  "algorithm_value SEMANTIC = ''semantic''"
| "algorithm_value KEYWORD = ''keyword''"
| "algorithm_value HYBRID = ''hybrid''"
| "algorithm_value FUZZY = ''fuzzy''"
| "algorithm_value CONTEXTUAL = ''contextual''"

text \<open>The \<^verbatim>\<open>threshold\<close> entry of \<^verbatim>\<open>algorithm_configs\<close>.\<close>

fun config_threshold :: "SearchAlgorithm \<Rightarrow> real" where
  "config_threshold SEMANTIC = 6 / 10"
| "config_threshold KEYWORD = 4 / 10"
| "config_threshold HYBRID = 5 / 10"
| "config_threshold FUZZY = 8 / 10"
| "config_threshold CONTEXTUAL = 6 / 10"

record SearchResult =
  content :: string
  title :: string
  source :: string
  similarity_score :: real
  metadata :: "(string \<times> string) list"
  chunk_id :: string
  document_id :: string
  position :: int
  search_algorithm :: string
  confidence :: real

record SearchQuery =
  "text" :: string
  algorithm :: SearchAlgorithm
  filters :: "(string \<times> string) list"
  top_k :: py_value
  similarity_threshold :: real
  include_metadata :: bool

text \<open>
  What the engine calls outside itself: the \<^verbatim>\<open>search\<close> method of the base engine
  (query, \<^verbatim>\<open>top_k\<close>, and the keyword arguments \<^verbatim>\<open>similarity_threshold\<close> and
  \<^verbatim>\<open>algorithm\<close> when passed), and the chunk table of the database. A database
  read raises, finds no connection (\<open>None\<close>), or returns rows.
\<close>

record chunk_row =
  chunk_content :: string
  chunk_title :: string
  chunk_source :: string
  chunk_row_id :: string
  chunk_document_id :: string
  chunk_position :: int
  chunk_matches :: real

record search_backend =
  base_search :: "string \<Rightarrow> py_value \<Rightarrow> real option \<Rightarrow> string option \<Rightarrow> py_error + document list"
  keyword_rows :: "py_error + chunk_row list option"
  fuzzy_rows :: "py_error + chunk_row list option"
  context_rows :: "string \<Rightarrow> int \<Rightarrow> py_error + string list"

text \<open>The fabricated result each handler returns; only the wording and the score differ.\<close>

definition mock_result ::
  "string \<Rightarrow> string \<Rightarrow> string \<Rightarrow> real \<Rightarrow> (string \<times> string) list \<Rightarrow> string \<Rightarrow> string
   \<Rightarrow> SearchResult" where
  "mock_result kind shown query_text score meta tag algorithm_name =
     \<lparr> content = ''Mock '' @ kind @ ''result for '' @ [CHR 0x27] @ query_text @ [CHR 0x27],
       title = ''Mock '' @ shown @ ''Document'',
       source = ''test'',
       similarity_score = score,
       metadata = meta,
       chunk_id = ''mock_'' @ tag @ ''1'',
       document_id = ''mock_doc_'' @ tag @ ''1'',
       position = 0,
       search_algorithm = algorithm_name,
       confidence = score \<rparr>"

definition mock_semantic :: "string \<Rightarrow> SearchResult" where
  "mock_semantic query_text =
     mock_result ''semantic '' ''Semantic '' query_text (8 / 10)
       [(''test'', ''True''), (''algorithm'', ''semantic'')] ''semantic_'' ''semantic''"

definition mock_keyword :: "string \<Rightarrow> SearchResult" where
  "mock_keyword query_text =
     mock_result ''keyword '' ''Keyword '' query_text (7 / 10)
       [(''test'', ''True''), (''algorithm'', ''keyword'')] ''keyword_'' ''keyword''"

definition mock_fuzzy :: "string \<Rightarrow> SearchResult" where
  "mock_fuzzy query_text =
     mock_result ''fuzzy '' ''Fuzzy '' query_text (6 / 10)
       [(''test'', ''True''), (''algorithm'', ''fuzzy'')] ''fuzzy_'' ''fuzzy''"

definition mock_contextual :: "string \<Rightarrow> SearchResult" where
  "mock_contextual query_text =
     mock_result ''contextual '' ''Contextual '' query_text (9 / 10)
       [(''test'', ''True''), (''algorithm'', ''contextual''), (''context_enhanced'', ''True'')]
       ''contextual_'' ''contextual''"

definition mock_advanced :: "string \<Rightarrow> SearchAlgorithm \<Rightarrow> SearchResult" where
  "mock_advanced query_text alg =
     mock_result [] [] query_text (8 / 10)
       [(''test'', ''True''), (''algorithm'', algorithm_value alg)] [] (algorithm_value alg)"

text \<open>
  The conversion of the \<open>i\<close>-th dictionary the base engine returned. A missing score is
  read from the metadata, with the default of the calling routine. Of the document's
  metadata only that score is kept; the result carries the entries the routine adds.
\<close>

definition convert_result ::
  "real \<Rightarrow> (string \<times> string) list \<Rightarrow> string \<Rightarrow> nat \<Rightarrow> document \<Rightarrow> SearchResult" where
  "convert_result default_score meta algorithm_name i doc =
     (let score = (case doc_similarity_score doc of
                     Some s \<Rightarrow> s
                   | None \<Rightarrow> dict_get (doc_metadata_score doc) default_score)
      in \<lparr> content = dict_get (doc_content doc) [],
           title = dict_get (doc_title doc) ''Untitled'',
           source = dict_get (doc_source doc) ''Unknown'',
           similarity_score = score,
           metadata = meta,
           chunk_id = dict_get (doc_chunk_id doc) (''chunk_'' @ str_nat i),
           document_id = dict_get (doc_document_id doc) (''doc_'' @ str_nat i),
           position = int i,
           search_algorithm = algorithm_name,
           confidence = score \<rparr>)"

definition convert_results ::
  "real \<Rightarrow> (string \<times> string) list \<Rightarrow> string \<Rightarrow> document list \<Rightarrow> SearchResult list" where
  "convert_results default_score meta algorithm_name results =
     map (\<lambda>(i, doc). convert_result default_score meta algorithm_name i doc)
       (zip [0 ..< length results] results)"

text \<open>The call \<^verbatim>\<open>base_rag_engine.search(query.text, top_k=query.top_k * 2, ...)\<close>.\<close>

definition call_base ::
  "search_backend \<Rightarrow> SearchQuery \<Rightarrow> real option \<Rightarrow> string option \<Rightarrow> py_error + document list" where
  "call_base backend query threshold_arg algorithm_arg =
     (case py_times_two (top_k query) of
        Inl e \<Rightarrow> Inl e
      | Inr doubled \<Rightarrow> base_search backend (text query) doubled threshold_arg algorithm_arg)"

definition semantic_search :: "search_backend \<Rightarrow> SearchQuery \<Rightarrow> SearchResult list" where
  "semantic_search backend query =
     (case call_base backend query (Some (similarity_threshold query)) None of
        Inl e \<Rightarrow> [mock_semantic (text query)]
      | Inr results \<Rightarrow> convert_results (8 / 10) [] ''semantic'' results)"

definition keyword_stop_words :: "string list" where
  "keyword_stop_words =
     [''the'', ''a'', ''an'', ''and'', ''or'', ''but'', ''in'', ''on'', ''at'', ''to'', ''for'',
      ''of'', ''with'', ''by'', ''is'', ''are'', ''was'', ''were'', ''be'', ''been'', ''being'',
      ''have'', ''has'', ''had'', ''do'', ''does'', ''did'', ''will'', ''would'', ''could'',
      ''should'', ''may'', ''might'', ''can'', ''this'', ''that'', ''these'', ''those'']"

definition extract_keywords :: "string \<Rightarrow> string list" where
  "extract_keywords query_text =
     remdups (filter (\<lambda>word. word \<notin> set keyword_stop_words \<and> length word > 2)
                (findall_words (lower query_text)))"

definition convert_row :: "string \<Rightarrow> real \<Rightarrow> chunk_row \<Rightarrow> SearchResult" where
  "convert_row algorithm_name score row =
     \<lparr> content = chunk_content row,
       title = chunk_title row,
       source = chunk_source row,
       similarity_score = score,
       metadata = [],
       chunk_id = chunk_row_id row,
       document_id = chunk_document_id row,
       position = chunk_position row,
       search_algorithm = algorithm_name,
       confidence = score \<rparr>"

text \<open>
  \<^verbatim>\<open>_keyword_search\<close>: the base engine first; when that call raises, the chunk
  table. A failing database read gives the empty list; the division by the number of
  keywords is outside that inner handler, so with no keyword it ends in the outer
  handler and its fabricated result.
\<close>

definition keyword_search :: "search_backend \<Rightarrow> SearchQuery \<Rightarrow> SearchResult list" where
  "keyword_search backend query =
     (case call_base backend query None (Some ''keyword'') of
        Inr results \<Rightarrow> convert_results (7 / 10) [] ''keyword'' results
      | Inl e \<Rightarrow>
          let keywords = extract_keywords (text query)
          in case py_times_two (top_k query) of
               Inl e \<Rightarrow> []
             | Inr doubled \<Rightarrow>
                 (case keyword_rows backend of
                    Inl e \<Rightarrow> []
                  | Inr None \<Rightarrow> []
                  | Inr (Some rows) \<Rightarrow>
                      if rows \<noteq> [] \<and> keywords = [] then [mock_keyword (text query)]
                      else map (\<lambda>row. convert_row ''keyword''
                                         (chunk_matches row / real (length keywords)) row) rows))"

definition fuzzy_search :: "search_backend \<Rightarrow> SearchQuery \<Rightarrow> SearchResult list" where
  "fuzzy_search backend query =
     (case call_base backend query None (Some ''fuzzy'') of
        Inr results \<Rightarrow> convert_results (6 / 10) [] ''fuzzy'' results
      | Inl e \<Rightarrow>
          (case py_times_two (top_k query) of
             Inl e \<Rightarrow> []
           | Inr doubled \<Rightarrow>
               (case fuzzy_rows backend of
                  Inl e \<Rightarrow> []
                | Inr None \<Rightarrow> []
                | Inr (Some rows) \<Rightarrow>
                    map (\<lambda>row. convert_row ''fuzzy'' (chunk_matches row) row) rows)))"

text \<open>\<^verbatim>\<open>_get_contextual_window\<close>: the neighbouring chunks joined, or the empty string.\<close>

definition get_contextual_window :: "search_backend \<Rightarrow> string \<Rightarrow> int \<Rightarrow> string" where
  "get_contextual_window backend doc_ident pos =
     (case context_rows backend doc_ident pos of
        Inl e \<Rightarrow> []
      | Inr parts \<Rightarrow> join '' '' parts)"

definition contextual_search :: "search_backend \<Rightarrow> SearchQuery \<Rightarrow> SearchResult list" where
  "contextual_search backend query =
     (case call_base backend query None (Some ''contextual'') of
        Inr results \<Rightarrow>
          convert_results (9 / 10) [(''context_enhanced'', ''True'')] ''contextual'' results
      | Inl e \<Rightarrow>
          map (\<lambda>result.
                 result\<lparr> similarity_score := similarity_score result * (11 / 10),
                         metadata := metadata result
                           @ [(''context_window'',
                               get_contextual_window backend (document_id result) (position result)),
                              (''context_enhanced'', ''True'')],
                         search_algorithm := ''contextual'',
                         confidence := confidence result * (11 / 10) \<rparr>)
            (semantic_search backend query))"

text \<open>
  \<^verbatim>\<open>_combine_search_results\<close>. The result map is a dictionary keyed by chunk
  identifier: a list of entries in insertion order, where assigning to a key that is
  present replaces the entry in place.
\<close>

record chunk_data =
  result :: SearchResult
  semantic_score :: real
  keyword_score :: real
  combined_score :: real

fun dict_set :: "(string \<times> 'v) list \<Rightarrow> string \<Rightarrow> 'v \<Rightarrow> (string \<times> 'v) list" where
  "dict_set [] key v = [(key, v)]"
| "dict_set ((k, w) # rest) key v =
     (if k = key then (k, v) # rest else (k, w) # dict_set rest key v)"

definition add_semantic :: "(string \<times> chunk_data) list \<Rightarrow> SearchResult \<Rightarrow> (string \<times> chunk_data) list" where
  "add_semantic result_map r =
     dict_set result_map (chunk_id r)
       \<lparr> result = r, semantic_score = similarity_score r, keyword_score = 0, combined_score = 0 \<rparr>"

definition add_keyword :: "(string \<times> chunk_data) list \<Rightarrow> SearchResult \<Rightarrow> (string \<times> chunk_data) list" where
  "add_keyword result_map r =
     (case map_of result_map (chunk_id r) of
        Some entry \<Rightarrow> dict_set result_map (chunk_id r) (entry\<lparr>keyword_score := similarity_score r\<rparr>)
      | None \<Rightarrow>
          dict_set result_map (chunk_id r)
            \<lparr> result = r, semantic_score = 0, keyword_score = similarity_score r,
              combined_score = 0 \<rparr>)"

definition score_entry :: "chunk_data \<Rightarrow> chunk_data" where
  "score_entry entry =
     (let combined = semantic_score entry * (7 / 10) + keyword_score entry * (3 / 10)
      in entry\<lparr> combined_score := combined,
                result := (result entry)\<lparr>similarity_score := combined\<rparr> \<rparr>)"

definition combine_search_results :: "SearchResult list \<Rightarrow> SearchResult list \<Rightarrow> SearchResult list" where
  "combine_search_results semantic_results keyword_results =
     (let result_map = fold (\<lambda>r m. add_keyword m r) keyword_results
                         (fold (\<lambda>r m. add_semantic m r) semantic_results []);
          scored = map (\<lambda>(k, entry). score_entry entry) result_map
      in map result (sorted_desc combined_score scored))"

definition hybrid_search :: "search_backend \<Rightarrow> SearchQuery \<Rightarrow> py_error + SearchResult list" where
  "hybrid_search backend query =
     (let semantic_results = semantic_search backend query;
          keyword_results = keyword_search backend query;
          combined_results = combine_search_results semantic_results keyword_results
      in py_slice_to combined_results (top_k query))"

text \<open>\<^verbatim>\<open>_calculate_content_similarity\<close> of the advanced engine: Jaccard overlap of the
  lower-cased, white-space separated words.\<close>

definition content_overlap :: "string \<Rightarrow> string \<Rightarrow> real" where
  "content_overlap content1 content2 =
     (let words1 = set (split (lower content1));
          words2 = set (split (lower content2))
      in if words1 = {} \<or> words2 = {} then 0
         else let intersection = card (words1 \<inter> words2);
                  union = card (words1 \<union> words2)
              in if union > 0 then real intersection / real union else 0)"

text \<open>The loop of \<^verbatim>\<open>_deduplicate_results\<close>; the second argument is \<^verbatim>\<open>unique_results\<close>.\<close>

fun dedup_loop :: "SearchResult list \<Rightarrow> SearchResult list \<Rightarrow> SearchResult list" where
  "dedup_loop [] unique_results = unique_results"
| "dedup_loop (r # rest) unique_results =
     (if list_ex (\<lambda>unique_result. content_overlap (content r) (content unique_result) > 8 / 10)
           unique_results
      then dedup_loop rest unique_results
      else dedup_loop rest (unique_results @ [r]))"

definition deduplicate_results :: "SearchResult list \<Rightarrow> SearchResult list" where
  "deduplicate_results results = (case results of [] \<Rightarrow> [] | r # rest \<Rightarrow> dedup_loop rest [r])"

definition post_process_results :: "SearchResult list \<Rightarrow> SearchQuery \<Rightarrow> py_error + SearchResult list" where
  "post_process_results results query =
     (let filtered_results = filter (\<lambda>r. similarity_score r \<ge> similarity_threshold query) results;
          deduplicated_results = deduplicate_results filtered_results;
          sorted_results = sorted_desc similarity_score deduplicated_results
      in py_slice_to sorted_results (top_k query))"

text \<open>The routing step of \<^verbatim>\<open>advanced_search\<close>.\<close>

definition route_search :: "search_backend \<Rightarrow> SearchQuery \<Rightarrow> py_error + SearchResult list" where
  "route_search backend query =
     (case algorithm query of
        HYBRID \<Rightarrow> hybrid_search backend query
      | SEMANTIC \<Rightarrow> Inr (semantic_search backend query)
      | KEYWORD \<Rightarrow> Inr (keyword_search backend query)
      | FUZZY \<Rightarrow> Inr (fuzzy_search backend query)
      | CONTEXTUAL \<Rightarrow> Inr (contextual_search backend query))"

text \<open>\<^verbatim>\<open>similarity_threshold or self.algorithm_configs[algorithm]["threshold"]\<close>.\<close>

definition active_threshold :: "SearchAlgorithm \<Rightarrow> real option \<Rightarrow> real" where
  "active_threshold alg threshold_arg =
     (case threshold_arg of
        None \<Rightarrow> config_threshold alg
      | Some t \<Rightarrow> if t = 0 then config_threshold alg else t)"

definition make_query :: "string \<Rightarrow> SearchAlgorithm \<Rightarrow> py_value \<Rightarrow> real option \<Rightarrow> SearchQuery" where
  "make_query query_text alg top_k_arg threshold_arg =
     \<lparr> text = query_text, algorithm = alg, filters = [], top_k = top_k_arg,
       similarity_threshold = active_threshold alg threshold_arg, include_metadata = True \<rparr>"

text \<open>
  The guarded body of \<^verbatim>\<open>advanced_search\<close>: routing, then post-processing. Writing
  the results to the cache follows; it catches its own exceptions and does not change
  the list.
\<close>

definition search_body :: "search_backend \<Rightarrow> SearchQuery \<Rightarrow> py_error + SearchResult list" where
  "search_body backend query =
     (case route_search backend query of
        Inl e \<Rightarrow> Inl e
      | Inr results \<Rightarrow> post_process_results results query)"

definition advanced_search ::
  "search_backend \<Rightarrow> string \<Rightarrow> SearchAlgorithm \<Rightarrow> py_value \<Rightarrow> real option \<Rightarrow> SearchResult list" where
  "advanced_search backend query_text alg top_k_arg threshold_arg =
     (case search_body backend (make_query query_text alg top_k_arg threshold_arg) of
        Inr results \<Rightarrow> results
      | Inl e \<Rightarrow> [mock_advanced query_text alg])"

text \<open>The advanced engine over the repository's own RAG engine.\<close>

definition rag_backend :: "rag_environment \<Rightarrow> search_backend \<Rightarrow> search_backend" where
  "rag_backend env backend = backend\<lparr>base_search := rag_search env\<rparr>"

text \<open>The fused list of the hybrid routine, before its own cut to \<^verbatim>\<open>top_k\<close>.\<close>

definition fused_results :: "search_backend \<Rightarrow> SearchQuery \<Rightarrow> SearchResult list" where
  "fused_results backend query =
     combine_search_results (semantic_search backend query) (keyword_search backend query)"

text \<open>
  The candidate list that reaches post-processing when \<^verbatim>\<open>top_k\<close> is the
  non-negative integer \<open>k\<close>.
\<close>

definition candidates :: "search_backend \<Rightarrow> SearchQuery \<Rightarrow> nat \<Rightarrow> SearchResult list" where
  "candidates backend query k =
     (case algorithm query of
        HYBRID \<Rightarrow> take k (fused_results backend query)
      | SEMANTIC \<Rightarrow> semantic_search backend query
      | KEYWORD \<Rightarrow> keyword_search backend query
      | FUZZY \<Rightarrow> fuzzy_search backend query
      | CONTEXTUAL \<Rightarrow> contextual_search backend query)"

text \<open>
  Deduplication as the specification words it: the candidates are visited in
  score-descending order, and one is dropped when it overlaps an accepted result.
\<close>

definition dedup_score_descending :: "SearchResult list \<Rightarrow> SearchResult list" where
  "dedup_score_descending results = deduplicate_results (sorted_desc similarity_score results)"

definition near_duplicates :: "SearchResult \<Rightarrow> SearchResult \<Rightarrow> bool" where
  "near_duplicates a b = (content_overlap (content a) (content b) > 8 / 10)"

text \<open>No two results at different positions are near-duplicates of each other.\<close>

definition no_near_duplicates :: "SearchResult list \<Rightarrow> bool" where
  "no_near_duplicates results = sorted_wrt (\<lambda>a b. \<not> near_duplicates a b) results"

definition score_descending :: "SearchResult list \<Rightarrow> bool" where
  "score_descending results = sorted_wrt (\<lambda>a b. similarity_score a \<ge> similarity_score b) results"

text \<open>Example data: a base engine that answers every call with the same scored documents.\<close>

definition example_doc :: "string \<Rightarrow> string \<Rightarrow> real \<Rightarrow> document" where
  "example_doc ident body score =
     \<lparr> doc_id = ident, doc_title = Some ident, doc_content = Some body, doc_text = None,
       doc_source = None, doc_chunk_id = None, doc_document_id = None,
       doc_metadata_score = None, doc_similarity_score = Some score \<rparr>"

definition example_backend :: "document list \<Rightarrow> search_backend" where
  "example_backend docs =
     \<lparr> base_search = (\<lambda>query_text k threshold_arg algorithm_arg. Inr docs),
       keyword_rows = Inr None,
       fuzzy_rows = Inr None,
       context_rows = (\<lambda>doc_ident pos. Inr []) \<rparr>"

definition example_docs :: "document list" where
  "example_docs =
     [example_doc ''1'' ''alpha beta gamma'' (9 / 10),
      example_doc ''2'' ''alpha beta gamma'' (8 / 10),
      example_doc ''3'' ''delta epsilon'' (7 / 10)]"

definition example_result :: "string \<Rightarrow> real \<Rightarrow> SearchResult" where
  "example_result body score =
     \<lparr> content = body, title = ''Untitled'', source = ''Unknown'', similarity_score = score,
       metadata = [], chunk_id = ''chunk'', document_id = ''doc'', position = 0,
       search_algorithm = ''semantic'', confidence = score \<rparr>"

text \<open>
  The document store is unavailable: the retrieval query raises, or it yields no row
  with content.
\<close>

definition store_unavailable :: "rag_environment \<Rightarrow> bool" where
  "store_unavailable env =
     (case execute_query env of Inl e \<Rightarrow> True | Inr rows \<Rightarrow> filter row_has_content rows = [])"

text \<open>No cache entry holds a non-empty result list.\<close>

definition nothing_cached :: "rag_environment \<Rightarrow> bool" where
  "nothing_cached env =
     (\<forall>key. case cache_get env key of Inr (Some (d # ds)) \<Rightarrow> False | _ \<Rightarrow> True)"

text \<open>Example data: a store that is down, with a cache that answers every read alike.\<close>

definition example_environment :: "document list option \<Rightarrow> rag_environment" where
  "example_environment cached =
     \<lparr> execute_query = Inl (ConnectionError ''connection refused''),
       cache_get = (\<lambda>key. Inr cached),
       cache_set_raises = (\<lambda>key. False) \<rparr>"

section \<open>RAG engine: token-budgeted context\<close>

text \<open>
  The tokenizer of the token manager (\<^verbatim>\<open>self.encoder\<close>) comes from a library outside
  the repository and may be absent. When present it is taken as a parameter: the number
  of tokens of its encoding of a text, or \<open>None\<close> where encoding raises.
\<close>

type_synonym encoder = "string \<Rightarrow> nat option"

text \<open>
  The estimate \<^verbatim>\<open>int(len(text.split()) * 1.3)\<close>: the integer part of thirteen tenths
  of the word count.
\<close>

definition estimate_tokens :: "string \<Rightarrow> nat" where
  "estimate_tokens s = (13 * length (split s)) div 10"

text \<open>
  \<^verbatim>\<open>TokenManager.count_tokens\<close>: the tokenizer's count when there is a tokenizer and
  it does not raise, the estimate otherwise.
\<close>

definition count_tokens :: "encoder option \<Rightarrow> string \<Rightarrow> nat" where
  "count_tokens enc s =
     (case enc of
        None \<Rightarrow> estimate_tokens s
      | Some encode \<Rightarrow> (case encode s of Some n \<Rightarrow> n | None \<Rightarrow> estimate_tokens s))"

text \<open>The binary search of \<^verbatim>\<open>truncate_to_tokens\<close> for the number of words to keep.\<close>

function search_left :: "encoder option \<Rightarrow> string list \<Rightarrow> int \<Rightarrow> nat \<Rightarrow> nat \<Rightarrow> nat" where
  "search_left enc words max_tokens left right =
     (if left < right
      then let mid = (left + right + 1) div 2
           in if int (count_tokens enc (join '' '' (take mid words))) \<le> max_tokens
              then search_left enc words max_tokens mid right
              else search_left enc words max_tokens left (mid - 1)
      else left)"
  by pat_completeness auto
termination
  by (relation "measure (\<lambda>(enc, words, max_tokens, left, right). right - left)") auto

declare search_left.simps [simp del]

definition truncate_to_tokens :: "encoder option \<Rightarrow> string \<Rightarrow> int \<Rightarrow> string" where
  "truncate_to_tokens enc s max_tokens =
     (if int (count_tokens enc s) \<le> max_tokens then s
      else let words = split s;
               left = search_left enc words max_tokens 0 (length words)
           in join '' '' (take left words) @ ''...'')"

definition max_context_tokens :: nat where
  "max_context_tokens = 6000"

definition newline :: string where
  "newline = [CHR 0x0A]"

text \<open>The title and the content of the \<open>i\<close>-th search result, with their defaults.\<close>

definition entry_title :: "nat \<Rightarrow> document \<Rightarrow> string" where
  "entry_title i r = dict_get (doc_title r) (''Document '' @ str_nat (i + 1))"

definition entry_content :: "document \<Rightarrow> string" where
  "entry_content r = dict_get (doc_content r) (dict_get (doc_text r) [])"

definition format_entry :: "string \<Rightarrow> string \<Rightarrow> string" where
  "format_entry shown body = ''**'' @ shown @ ''**'' @ newline @ body @ newline"

text \<open>
  The loop of \<^verbatim>\<open>_prepare_optimized_context\<close>; the state is \<^verbatim>\<open>context_parts\<close> and
  \<^verbatim>\<open>total_tokens\<close>. The first entry that does not fit ends the loop, after a
  truncated copy of it was added when more than 100 tokens remain.
\<close>

fun context_loop ::
  "encoder option \<Rightarrow> nat \<Rightarrow> document list \<Rightarrow> string list \<Rightarrow> nat \<Rightarrow> string list" where
  "context_loop enc i [] context_parts total_tokens = context_parts"
| "context_loop enc i (r # rest) context_parts total_tokens =
     (let entry = format_entry (entry_title i r) (entry_content r);
          entry_tokens = count_tokens enc entry
      in if total_tokens + entry_tokens > max_context_tokens
         then let remaining_tokens = int max_context_tokens - int total_tokens - 50
              in if remaining_tokens > 100
                 then context_parts
                      @ [format_entry (entry_title i r)
                           (truncate_to_tokens enc (entry_content r) remaining_tokens)]
                 else context_parts
         else context_loop enc (i + 1) rest (context_parts @ [entry])
                (total_tokens + entry_tokens))"

definition prepare_optimized_context :: "encoder option \<Rightarrow> document list \<Rightarrow> string" where
  "prepare_optimized_context enc search_results =
     (if search_results = [] then ''No relevant context found.''
      else let context_parts = context_loop enc 0 search_results [] 0;
               context = join newline context_parts
           in if count_tokens enc context > max_context_tokens
              then truncate_to_tokens enc context (int max_context_tokens)
              else context)"

section \<open>Agent orchestrator: coordination of several strategies\<close>

definition upper_char :: "char \<Rightarrow> char" where
  "upper_char c = (case map_of (zip lower_letters upper_letters) c of Some d \<Rightarrow> d | None \<Rightarrow> c)"

definition upper :: "string \<Rightarrow> string" where
  "upper s = map upper_char s"

text \<open>
  The dictionary an agent returns, reduced to the two keys the synthesis reads. A task
  either raises, with the message \<^verbatim>\<open>str(e)\<close>, or returns such a dictionary. The
  environment gives the outcome of the task launched at each position for each agent
  type. Creating an agent does not raise: the configuration exists for every type and
  the executor's initialisation catches its own errors.
\<close>

record agent_reply =
  reply_response :: "string option"
  reply_error :: "string option"

type_synonym task_outcome = "string + agent_reply"

record coordination_result =
  response :: string
  error :: "string option"
  agent_results :: "(string \<times> agent_reply) list"
  synthesis_method :: "string option"
  original_query :: "string option"
  status :: string

definition max_concurrent_agents :: nat where
  "max_concurrent_agents = 3"

text \<open>The agent types of a coordination call: the given ones, or the automatic choice.\<close>

definition selected_agents :: "string \<Rightarrow> AgentType list \<Rightarrow> AgentType list" where
  "selected_agents query agent_types =
     (if agent_types = []
      then let analysis = analyze_query query
           in if complexity analysis \<in> set [COMPLEX, EXPERT] then [RESEARCH, ANALYTICAL, GENERAL]
              else [agent_type analysis]
      else agent_types)"

definition launched_agents :: "string \<Rightarrow> AgentType list \<Rightarrow> (nat \<times> AgentType) list" where
  "launched_agents query agent_types =
     (let launched = take max_concurrent_agents (selected_agents query agent_types)
      in zip [0 ..< length launched] launched)"

text \<open>Awaiting the tasks in order: a result is stored, an exception becomes an error entry.\<close>

definition error_entry :: "string \<Rightarrow> agent_reply" where
  "error_entry message = \<lparr> reply_response = None, reply_error = Some message \<rparr>"

definition collect_results ::
  "(nat \<Rightarrow> AgentType \<Rightarrow> task_outcome) \<Rightarrow> (nat \<times> AgentType) list \<Rightarrow> (string \<times> agent_reply) list" where
  "collect_results run tasks =
     fold (\<lambda>(i, agent) results.
             case run i agent of
               Inr reply \<Rightarrow> dict_set results (agent_value agent) reply
             | Inl message \<Rightarrow> dict_set results (agent_value agent) (error_entry message))
       tasks []"

definition successful :: "agent_reply \<Rightarrow> bool" where
  "successful reply = (reply_error reply = None \<and> reply_response reply \<noteq> None)"

definition perspective :: "string \<times> agent_reply \<Rightarrow> string" where
  "perspective item =
     ''**'' @ upper (fst item) @ '' PERSPECTIVE:**'' @ newline @ dict_get (reply_response (snd item)) []"

definition synthesize_agent_results :: "(string \<times> agent_reply) list \<Rightarrow> string \<Rightarrow> coordination_result" where
  "synthesize_agent_results results query =
     (let successful_results = filter (\<lambda>item. successful (snd item)) results
      in if successful_results = []
         then \<lparr> response = ''All agents failed to process the query.'',
                error = Some ''Agent coordination failed'',
                agent_results = results,
                synthesis_method = None,
                original_query = None,
                status = [] \<rparr>
         else \<lparr> response = join (newline @ newline) (map perspective successful_results),
                error = None,
                agent_results = results,
                synthesis_method = Some ''simple_combination'',
                original_query = Some query,
                status = [] \<rparr>)"

definition coordinate_agents ::
  "(nat \<Rightarrow> AgentType \<Rightarrow> task_outcome) \<Rightarrow> string \<Rightarrow> AgentType list \<Rightarrow> coordination_result" where
  "coordinate_agents run query agent_types =
     (let results = collect_results run (launched_agents query agent_types);
          synthesis_result = synthesize_agent_results results query
      in synthesis_result\<lparr> status := (if response synthesis_result \<noteq> [] then ''success''
                                         else ''error'') \<rparr>)"

text \<open>A launched strategy fails by raising; a surviving one returned a usable response.\<close>

definition raised :: "task_outcome \<Rightarrow> bool" where
  "raised outcome = (case outcome of Inl message \<Rightarrow> True | Inr reply \<Rightarrow> False)"

definition survived :: "task_outcome \<Rightarrow> bool" where
  "survived outcome = (case outcome of Inl message \<Rightarrow> False | Inr reply \<Rightarrow> successful reply)"

definition survivors ::
  "(nat \<Rightarrow> AgentType \<Rightarrow> task_outcome) \<Rightarrow> (nat \<times> AgentType) list \<Rightarrow> (string \<times> agent_reply) list" where
  "survivors run tasks =
     concat (map (\<lambda>(i, agent). case run i agent of
                                  Inl message \<Rightarrow> []
                                | Inr reply \<Rightarrow> [(agent_value agent, reply)]) tasks)"

text \<open>
  Example data: the research, creative and technical strategies raise, the others
  answer.
\<close>

definition example_run :: "nat \<Rightarrow> AgentType \<Rightarrow> task_outcome" where
  "example_run i agent =
     (if agent \<in> set [RESEARCH, CREATIVE, TECHNICAL] then Inl ''timeout''
      else Inr \<lparr> reply_response = Some (''answer of '' @ agent_value agent), reply_error = None \<rparr>)"

definition failing_run :: "nat \<Rightarrow> AgentType \<Rightarrow> task_outcome" where
  "failing_run i agent = Inl ''timeout''"

text \<open>The number of launched strategies that fail by raising.\<close>

definition failures :: "(nat \<Rightarrow> AgentType \<Rightarrow> task_outcome) \<Rightarrow> (nat \<times> AgentType) list \<Rightarrow> nat" where
  "failures run tasks = length (filter (\<lambda>(i, agent). raised (run i agent)) tasks)"

text \<open>The entry of the result dictionary that a launched strategy is expected to have.\<close>

definition expected_entry :: "(nat \<Rightarrow> AgentType \<Rightarrow> task_outcome) \<Rightarrow> nat \<times> AgentType \<Rightarrow> string \<times> agent_reply" where
  "expected_entry run task =
     (agent_value (snd task),
      case run (fst task) (snd task) of Inl message \<Rightarrow> error_entry message | Inr reply \<Rightarrow> reply)"

text \<open>
  The entry of the \<open>i\<close>-th result in full, the entry with its content truncated to a
  number of tokens, and the full entries of a list of results numbered from \<open>i\<close>.
\<close>

definition full_entry :: "nat \<Rightarrow> document \<Rightarrow> string" where
  "full_entry i r = format_entry (entry_title i r) (entry_content r)"

definition truncated_entry :: "encoder option \<Rightarrow> nat \<Rightarrow> document \<Rightarrow> int \<Rightarrow> string" where
  "truncated_entry enc i r remaining_tokens =
     format_entry (entry_title i r) (truncate_to_tokens enc (entry_content r) remaining_tokens)"

fun entries_from :: "nat \<Rightarrow> document list \<Rightarrow> string list" where
  "entries_from i [] = []"
| "entries_from i (r # rest) = full_entry i r # entries_from (Suc i) rest"

text \<open>Every score of a list of scored documents lies between 0 and 1.\<close>

definition unit_scores :: "('a \<times> real) list \<Rightarrow> bool" where
  "unit_scores sims = list_all (\<lambda>(doc, score). 0 \<le> score \<and> score \<le> 1) sims"

section \<open>Proofs\<close>

subsection \<open>The query classifier\<close>


lemma fold_max_ge: "(m::nat) \<le> fold max cs m"
proof (induction cs arbitrary: m)
  case Nil
  show ?case by simp
next
  case (Cons c cs)
  have "m \<le> max c m" by simp
  also have "\<dots> \<le> fold max cs (max c m)" by (rule Cons.IH)
  finally show ?case by simp
qed

lemma fold_max_in: "fold max cs (m::nat) \<noteq> m \<Longrightarrow> fold max cs m \<in> set cs"
proof (induction cs arbitrary: m)
  case Nil
  then show ?case by simp
next
  case (Cons c cs)
  show ?case
  proof (cases "fold max cs (max c m) = max c m")
    case True
    with Cons.prems have "max c m \<noteq> m" by simp
    then have "max c m = c" by (simp add: max_def split: if_splits)
    with True show ?thesis by simp
  next
    case False
    then have "fold max cs (max c m) \<in> set cs" by (rule Cons.IH)
    then show ?thesis by simp
  qed
qed

lemma fold_max_upper: "c \<in> set cs \<Longrightarrow> (c::nat) \<le> fold max cs m"
proof (induction cs arbitrary: m)
  case Nil
  then show ?case by simp
next
  case (Cons d cs)
  show ?case
  proof (cases "c = d")
    case True
    have "d \<le> max d m" by simp
    also have "\<dots> \<le> fold max cs (max d m)" by (rule fold_max_ge)
    finally show ?thesis using True by simp
  next
    case False
    with Cons.prems have "c \<in> set cs" by simp
    then show ?thesis using Cons.IH by simp
  qed
qed

lemma determine_agent_fst:
  "fst (determine_agent xs q (a, m)) =
     (if fold max (map (\<lambda>(b, inds). count_matches inds q) xs) m = m then a
      else (case filter (\<lambda>(b, inds). count_matches inds q =
                           fold max (map (\<lambda>(b, inds). count_matches inds q) xs) m) xs of
              [] \<Rightarrow> a | (b, inds) # _ \<Rightarrow> b))"
proof (induction xs arbitrary: a m)
  case Nil
  show ?case by simp
next
  case (Cons x xs)
  obtain b inds where x: "x = (b, inds)" by (cases x)
  define c where "c = count_matches inds q"
  define cs where "cs = map (\<lambda>(b, inds). count_matches inds q) xs"
  define M where "M = fold max cs (max c m)"
  have M_all: "fold max (map (\<lambda>(b, inds). count_matches inds q) (x # xs)) m = M"
    by (simp add: x M_def cs_def c_def)
  have nonempty: "filter (\<lambda>(b, inds). count_matches inds q = M) xs \<noteq> []" if "M \<noteq> max c m"
  proof -
    from that have "M \<in> set cs" unfolding M_def by (rule fold_max_in)
    then obtain y where y: "y \<in> set xs" "(case y of (b, inds) \<Rightarrow> count_matches inds q) = M"
      unfolding cs_def by auto
    then have "y \<in> set (filter (\<lambda>(b, inds). count_matches inds q = M) xs)"
      by (cases y) auto
    then show ?thesis by (metis empty_iff empty_set)
  qed
  show ?case
  proof (cases "c > m")
    case True
    then have mx: "max c m = c" by simp
    have step: "determine_agent (x # xs) q (a, m) = determine_agent xs q (b, c)"
      using True by (simp add: x c_def Let_def)
    have IH: "fst (determine_agent xs q (b, c)) =
        (if M = c then b
         else (case filter (\<lambda>(b, inds). count_matches inds q = M) xs of
                 [] \<Rightarrow> b | (b, inds) # _ \<Rightarrow> b))"
      using Cons.IH [of b c] by (simp add: M_def mx cs_def)
    have "c \<le> M" unfolding M_def mx by (rule fold_max_ge)
    with True have "M \<noteq> m" by simp
    show ?thesis
    proof (cases "M = c")
      case True
      with \<open>M \<noteq> m\<close> IH show ?thesis
        unfolding M_all step by (simp add: x c_def)
    next
      case False
      with nonempty mx have "filter (\<lambda>(b, inds). count_matches inds q = M) xs \<noteq> []" by simp
      with False \<open>M \<noteq> m\<close> IH show ?thesis
        unfolding M_all step by (auto simp: x c_def split: list.splits)
    qed
  next
    case False
    then have mx: "max c m = m" by simp
    have step: "determine_agent (x # xs) q (a, m) = determine_agent xs q (a, m)"
      using False by (simp add: x c_def Let_def)
    have IH: "fst (determine_agent xs q (a, m)) =
        (if M = m then a
         else (case filter (\<lambda>(b, inds). count_matches inds q = M) xs of
                 [] \<Rightarrow> a | (b, inds) # _ \<Rightarrow> b))"
      using Cons.IH [of a m] by (simp add: M_def mx cs_def)
    show ?thesis
    proof (cases "M = m")
      case True
      with IH show ?thesis unfolding M_all step by simp
    next
      case False
      have "m \<le> M" unfolding M_def mx by (rule fold_max_ge)
      with False \<open>\<not> c > m\<close> have "c \<noteq> M" by simp
      with False IH show ?thesis
        unfolding M_all step by (simp add: x c_def)
    qed
  qed
qed



lemma family_counts_snd:
  "map snd (family_counts q) = map (\<lambda>(b, inds). count_matches inds (lower q)) agent_indicators"
  by (simp add: family_counts_def case_prod_beta)

lemma family_counts_filter:
  "map fst (filter (\<lambda>(agent, c). c = M) (family_counts q)) =
   map fst (filter (\<lambda>(b, inds). count_matches inds (lower q) = M) agent_indicators)"
  by (simp add: family_counts_def filter_map comp_def case_prod_unfold)

lemma first_of_filter:
  "(case xs of [] \<Rightarrow> d | (b, inds) # _ \<Rightarrow> b) = (case map fst xs of [] \<Rightarrow> d | b # _ \<Rightarrow> b)"
  by (cases xs) auto


lemma determine_agent_family:
  "fst (determine_agent agent_indicators (lower q) (GENERAL, 0)) =
     (if max_hits q = 0 then GENERAL else first_maximal_family q)"
proof -
  have M: "fold max (map (\<lambda>(b, inds). count_matches inds (lower q)) agent_indicators) 0 = max_hits q"
    by (simp add: max_hits_def family_counts_snd)
  show ?thesis
    unfolding determine_agent_fst M first_maximal_family_def
    by (simp add: first_of_filter family_counts_filter)
qed

lemma analyze_query_agent_type:
  "agent_type (analyze_query q) = (if max_hits q = 0 then GENERAL else first_maximal_family q)"
  using determine_agent_family [of q]
  by (simp add: analyze_query_def Let_def case_prod_beta)


lemma max_hits_zero: "(max_hits q = 0) = zero_in_every_family q"
proof
  assume "max_hits q = 0"
  then have "\<forall>c\<in>set (map snd (family_counts q)). c \<le> 0"
    using fold_max_upper [of _ "map snd (family_counts q)" 0] by (simp add: max_hits_def)
  then show "zero_in_every_family q"
    by (auto simp: zero_in_every_family_def list_all_iff)
next
  assume z: "zero_in_every_family q"
  show "max_hits q = 0"
  proof (rule ccontr)
    assume "max_hits q \<noteq> 0"
    then have "max_hits q \<in> set (map snd (family_counts q))"
      unfolding max_hits_def by (rule fold_max_in)
    with z \<open>max_hits q \<noteq> 0\<close> show False
      by (auto simp: zero_in_every_family_def list_all_iff)
  qed
qed



text \<open>
  Claim C9, as the code has it. The general type is selected exactly when every family has
  zero hits. Otherwise the selected family is the first one, in the order analytical,
  creative, technical, research, summary, that reaches the maximal hit count: the loop
  replaces its choice only on a strictly larger count, so a tie goes to the earlier
  family and not to the general type.
\<close>

theorem analyze_query_selects_first_maximal:
  "agent_type (analyze_query q) =
     (if zero_in_every_family q then GENERAL else first_maximal_family q)"
  by (simp add: analyze_query_agent_type max_hits_zero)

text \<open>
  The query \<^verbatim>\<open>analyze creative\<close> has one hit in the analytical family and one in
  the creative family, a tie for the maximum, and the analysis selects the analytical
  type.
\<close>

theorem analyze_query_tie_counterexample:
  "tied_for_maximum ''analyze creative''
   \<and> agent_type (analyze_query ''analyze creative'') \<noteq> GENERAL"
  by code_simp

subsection \<open>Ranking of scored documents\<close>




text \<open>
  The validator of the RAG query path is a different function: it runs before the
  search, replaces a non-positive integer by 1 and caps at 50, so that ranking on that
  path receives a positive \<^verbatim>\<open>top_k\<close>.
\<close>

lemma validate_top_k_non_positive: "k \<le> 0 \<Longrightarrow> validate_top_k k = 1"
  by (simp add: validate_top_k_def)

lemma validate_top_k_range: "1 \<le> validate_top_k k \<and> validate_top_k k \<le> 50"
  by (simp add: validate_top_k_def)

subsection \<open>Threshold\<close>

lemma py_slice_to_subset: "py_slice_to xs k = Inr ys \<Longrightarrow> set ys \<subseteq> set xs"
  by (cases k) (auto dest: in_set_takeD split: if_splits)

lemma set_sorted_desc [simp]: "set (sorted_desc f xs) = set xs"
  by (simp add: sorted_desc_def)

lemma dedup_loop_subset: "set (dedup_loop rest unique) \<subseteq> set rest \<union> set unique"
  by (induction rest unique rule: dedup_loop.induct) auto

lemma deduplicate_results_subset: "set (deduplicate_results rs) \<subseteq> set rs"
proof (cases rs)
  case Nil
  then show ?thesis by (simp add: deduplicate_results_def)
next
  case (Cons r rest)
  then show ?thesis using dedup_loop_subset [of rest "[r]"] by (auto simp: deduplicate_results_def)
qed

lemma post_process_results_threshold:
  assumes "post_process_results rs query = Inr out" and "r \<in> set out"
  shows "similarity_score r \<ge> similarity_threshold query"
proof -
  from assms(1) have "set out \<subseteq> set (deduplicate_results
      (filter (\<lambda>r. similarity_score r \<ge> similarity_threshold query) rs))"
    using py_slice_to_subset by (fastforce simp: post_process_results_def Let_def)
  with assms(2) deduplicate_results_subset show ?thesis by fastforce
qed

lemma rank_documents_threshold:
  assumes "rank_documents sims k t = Inr docs" and "d \<in> set docs"
  shows "\<exists>s. doc_similarity_score d = Some s \<and> s \<ge> dict_get t (1 / 10)"
proof -
  from assms obtain n where
    d: "d \<in> set (map (\<lambda>(doc, score). doc\<lparr>doc_similarity_score := Some score\<rparr>)
           (take n (sorted_desc snd (filter (\<lambda>(doc, score). score \<ge> dict_get t (1 / 10)) sims))))"
    by (auto simp: rank_documents_def Let_def split: sum.splits)
  then obtain doc score where
    "d = doc\<lparr>doc_similarity_score := Some score\<rparr>"
    "(doc, score) \<in> set (take n (sorted_desc snd (filter (\<lambda>(doc, score). score \<ge> dict_get t (1 / 10)) sims)))"
    by auto
  moreover from this(2) have "(doc, score) \<in> set (filter (\<lambda>(doc, score). score \<ge> dict_get t (1 / 10)) sims)"
    by (auto dest: in_set_takeD)
  ultimately show ?thesis by auto
qed

text \<open>
  Claim C1, as the code has it. When the guarded body of \<^verbatim>\<open>advanced_search\<close> completes,
  the returned list is its result and every result in it has a score of at least the
  active threshold. When the body raises, the handler returns exactly one fabricated
  result, whose score is the constant 0.8 whatever the threshold is. Every document
  \<^verbatim>\<open>rank_documents\<close> returns carries a score of at least its threshold.
\<close>

theorem advanced_search_threshold:
  "(case search_body backend (make_query q alg k t) of
      Inr results \<Rightarrow>
        advanced_search backend q alg k t = results
        \<and> list_all (\<lambda>r. similarity_score r \<ge> active_threshold alg t) results
    | Inl e \<Rightarrow>
        advanced_search backend q alg k t = [mock_advanced q alg]
        \<and> similarity_score (mock_advanced q alg) = 8 / 10)
   \<and> (case rank_documents sims k threshold_arg of
         Inr docs \<Rightarrow>
           list_all (\<lambda>d. case doc_similarity_score d of
                           Some s \<Rightarrow> s \<ge> dict_get threshold_arg (1 / 10)
                         | None \<Rightarrow> False) docs
       | Inl e \<Rightarrow> True)"
proof -
  have thr: "similarity_threshold (make_query q alg k t) = active_threshold alg t"
    by (simp add: make_query_def)
  have A: "list_all (\<lambda>r. similarity_score r \<ge> active_threshold alg t) results"
    if "search_body backend (make_query q alg k t) = Inr results" for results
  proof -
    from that obtain cands where
      "post_process_results cands (make_query q alg k t) = Inr results"
      by (auto simp: search_body_def split: sum.splits)
    then show ?thesis
      using post_process_results_threshold [of cands "make_query q alg k t" results]
      by (auto simp: list_all_iff thr)
  qed
  have B: "list_all (\<lambda>d. case doc_similarity_score d of
                           Some s \<Rightarrow> s \<ge> dict_get threshold_arg (1 / 10)
                         | None \<Rightarrow> False) docs"
    if "rank_documents sims k threshold_arg = Inr docs" for docs
    using rank_documents_threshold [OF that] by (fastforce simp: list_all_iff)
  show ?thesis
    using A B
    by (auto simp: advanced_search_def mock_advanced_def mock_result_def split: sum.splits)
qed

text \<open>
  A request with threshold 0.9 whose \<^verbatim>\<open>top_k\<close> is the string \<^verbatim>\<open>abc\<close>: the final
  slice raises \<^verbatim>\<open>TypeError\<close>, and the handler returns a result with score 0.8, below
  the threshold.
\<close>

theorem advanced_search_mock_counterexample:
  "map similarity_score
     (advanced_search (example_backend []) ''q'' SEMANTIC (PyStr ''abc'') (Some (9 / 10)))
   = [8 / 10] \<and> (8 / 10 :: real) < 9 / 10"
  by code_simp

subsection \<open>Order of truncation\<close>

lemma make_query_fields:
  "algorithm (make_query q alg v t) = alg"
  "top_k (make_query q alg v t) = v"
  "similarity_threshold (make_query q alg v t) = active_threshold alg t"
  by (simp_all add: make_query_def)

text \<open>
  Claim C3, as the code has it. For a non-negative integer \<^verbatim>\<open>top_k\<close> the returned
  list is the truncation of the sorted, deduplicated, filtered candidate list, where the
  candidate list is what the routine of the algorithm handed to post-processing; for the
  hybrid algorithm that is the fused list already cut to \<^verbatim>\<open>top_k\<close>.
\<close>

theorem advanced_search_truncates_last:
  assumes "0 \<le> k"
  shows "advanced_search backend q alg (PyInt k) t =
     take (nat k) (sorted_desc similarity_score (deduplicate_results
       (filter (\<lambda>r. similarity_score r \<ge> active_threshold alg t)
          (candidates backend (make_query q alg (PyInt k) t) (nat k)))))"
  using assms
  by (cases alg)
    (simp_all add: advanced_search_def search_body_def route_search_def make_query_fields
      hybrid_search_def
      candidates_def post_process_results_def fused_results_def Let_def)

text \<open>The equation at \<^verbatim>\<open>top_k = 2\<close> on the example backend.\<close>

theorem advanced_search_truncates_last_witness:
  "(0::int) \<le> 2
   \<and> advanced_search (example_backend example_docs) ''q'' HYBRID (PyInt 2) (Some (1 / 2)) =
     take (nat 2) (sorted_desc similarity_score (deduplicate_results
       (filter (\<lambda>r. similarity_score r \<ge> active_threshold HYBRID (Some (1 / 2)))
          (candidates (example_backend example_docs)
             (make_query ''q'' HYBRID (PyInt 2) (Some (1 / 2))) (nat 2)))))"
proof -
  have h: "(0::int) \<le> 2" by simp
  show ?thesis
    using h advanced_search_truncates_last [OF h, of "example_backend example_docs" "''q''" HYBRID
        "Some (1 / 2)"]
    by simp
qed

text \<open>
  Three fused results, the first two with the same content, \<^verbatim>\<open>top_k = 2\<close>: filtering,
  deduplication, sorting and truncation of the fused list keep the first and the third,
  while the hybrid search returns the first alone, because the third was cut off before
  deduplication removed the second.
\<close>

theorem hybrid_early_truncation_counterexample:
  "map chunk_id
     (advanced_search (example_backend example_docs) ''q'' HYBRID (PyInt 2) (Some (1 / 2)))
   = [''chunk_0'']
   \<and> map chunk_id (projr (post_process_results
        (fused_results (example_backend example_docs)
           (make_query ''q'' HYBRID (PyInt 2) (Some (1 / 2))))
        (make_query ''q'' HYBRID (PyInt 2) (Some (1 / 2)))))
   = [''chunk_0'', ''chunk_2'']"
  by code_simp

subsection \<open>Deduplication\<close>

lemma content_overlap_commute: "content_overlap a b = content_overlap b a"
  by (simp add: content_overlap_def Let_def Int_commute Un_commute disj_commute)

lemma near_duplicates_commute: "near_duplicates a b = near_duplicates b a"
  by (simp add: near_duplicates_def content_overlap_commute)

lemma dedup_loop_no_near_duplicates:
  "no_near_duplicates unique \<Longrightarrow> no_near_duplicates (dedup_loop rest unique)"
proof (induction rest unique rule: dedup_loop.induct)
  case (1 unique)
  then show ?case by simp
next
  case (2 r rest unique)
  show ?case
  proof (cases "list_ex (\<lambda>u. content_overlap (content r) (content u) > 8 / 10) unique")
    case True
    with 2 show ?thesis by simp
  next
    case False
    then have "\<forall>u\<in>set unique. \<not> near_duplicates r u"
      by (simp add: list_ex_iff near_duplicates_def)
    then have "\<forall>u\<in>set unique. \<not> near_duplicates u r"
      using near_duplicates_commute by blast
    with "2.prems" have "no_near_duplicates (unique @ [r])"
      by (simp add: no_near_duplicates_def sorted_wrt_append)
    with False 2 show ?thesis by simp
  qed
qed

lemma deduplicate_results_no_near_duplicates: "no_near_duplicates (deduplicate_results rs)"
proof (cases rs)
  case Nil
  then show ?thesis by (simp add: deduplicate_results_def no_near_duplicates_def)
next
  case (Cons r rest)
  have "no_near_duplicates [r]" by (simp add: no_near_duplicates_def)
  then have "no_near_duplicates (dedup_loop rest [r])" by (rule dedup_loop_no_near_duplicates)
  with Cons show ?thesis by (simp add: deduplicate_results_def)
qed

lemma insort_key_symmetric:
  assumes "\<And>a b. P a b = P b a"
  shows "sorted_wrt P (insort_key f x xs) = ((\<forall>y\<in>set xs. P x y) \<and> sorted_wrt P xs)"
  using assms by (induction xs) (auto simp: set_insort_key)

lemma sort_key_symmetric:
  assumes "\<And>a b. P a b = P b a" and "sorted_wrt P xs"
  shows "sorted_wrt P (sort_key f xs)"
  using assms(2)
proof (induction xs)
  case Nil
  then show ?case by simp
next
  case (Cons x xs)
  then have "sorted_wrt P (sort_key f xs)" and "\<forall>y\<in>set xs. P x y" by simp_all
  then show ?case
    by (simp add: sort_key_def [symmetric] insort_key_symmetric [of P, OF assms(1)])
qed

lemma sorted_desc_no_near_duplicates:
  "no_near_duplicates rs \<Longrightarrow> no_near_duplicates (sorted_desc f rs)"
  unfolding no_near_duplicates_def sorted_desc_def
  by (rule sort_key_symmetric) (auto simp: near_duplicates_commute)

lemma py_slice_to_no_near_duplicates:
  "py_slice_to xs k = Inr ys \<Longrightarrow> no_near_duplicates xs \<Longrightarrow> no_near_duplicates ys"
  by (cases k) (auto simp: no_near_duplicates_def sorted_wrt_take split: if_splits)

lemma post_process_results_no_near_duplicates:
  "post_process_results rs query = Inr out \<Longrightarrow> no_near_duplicates out"
  unfolding post_process_results_def Let_def
  by (erule py_slice_to_no_near_duplicates)
    (intro sorted_desc_no_near_duplicates deduplicate_results_no_near_duplicates)

lemma advanced_search_no_near_duplicates:
  "no_near_duplicates (advanced_search backend q alg k t)"
proof (cases "search_body backend (make_query q alg k t)")
  case (Inl e)
  then show ?thesis by (simp add: advanced_search_def no_near_duplicates_def)
next
  case (Inr out)
  then obtain cands where "post_process_results cands (make_query q alg k t) = Inr out"
    by (auto simp: search_body_def split: sum.splits)
  then have "no_near_duplicates out" by (rule post_process_results_no_near_duplicates)
  with Inr show ?thesis by (simp add: advanced_search_def)
qed

lemma dedup_loop_keeps: "set unique \<subseteq> set (dedup_loop rest unique)"
  by (induction rest unique rule: dedup_loop.induct) auto

lemma dedup_loop_dropped:
  "r \<in> set rest \<Longrightarrow>
   r \<in> set (dedup_loop rest unique) \<or> (\<exists>u\<in>set (dedup_loop rest unique). near_duplicates r u)"
proof (induction rest unique rule: dedup_loop.induct)
  case (1 unique)
  then show ?case by simp
next
  case (2 x rest unique)
  show ?case
  proof (cases "r \<in> set rest")
    case True
    with 2 show ?thesis by (simp split: if_splits)
  next
    case False
    with "2.prems" have rx: "r = x" by simp
    show ?thesis
    proof (cases "list_ex (\<lambda>u. content_overlap (content x) (content u) > 8 / 10) unique")
      case True
      then obtain u where "u \<in> set unique" "near_duplicates x u"
        by (auto simp: list_ex_iff near_duplicates_def)
      with dedup_loop_keeps [of unique rest] True rx show ?thesis by auto
    next
      case False
      with dedup_loop_keeps [of "unique @ [x]" rest] rx show ?thesis by auto
    qed
  qed
qed

lemma deduplicate_results_dropped:
  assumes "r \<in> set rs"
  shows "r \<in> set (deduplicate_results rs) \<or> (\<exists>u\<in>set (deduplicate_results rs). near_duplicates r u)"
proof (cases rs)
  case Nil
  with assms show ?thesis by simp
next
  case (Cons x rest)
  show ?thesis
  proof (cases "r = x")
    case True
    with Cons dedup_loop_keeps [of "[x]" rest] show ?thesis
      by (auto simp: deduplicate_results_def)
  next
    case False
    with assms Cons have "r \<in> set rest" by simp
    then show ?thesis
      using dedup_loop_dropped [of r rest "[x]"] Cons by (simp add: deduplicate_results_def)
  qed
qed

lemma sorted_desc_id:
  "sorted_wrt (\<lambda>a b. f a \<ge> f b) xs \<Longrightarrow> sorted_desc f xs = xs"
  unfolding sorted_desc_def
  by (rule sort_key_id_if_sorted) (simp add: sorted_map)

text \<open>
  Claim C8, as the code has it. Deduplication visits the candidates in the order of the
  list it is given, which is the score-descending order whenever that list is
  score-descending; every candidate is accepted or overlaps an accepted result by more
  than 0.8; no two accepted results overlap by more than 0.8, and the same holds in
  every list \<^verbatim>\<open>advanced_search\<close> returns.
\<close>

theorem deduplication_no_near_duplicates:
  "(score_descending results \<longrightarrow> deduplicate_results results = dedup_score_descending results)
   \<and> list_all (\<lambda>r. r \<in> set (deduplicate_results results)
                    \<or> list_ex (near_duplicates r) (deduplicate_results results)) results
   \<and> no_near_duplicates (deduplicate_results results)
   \<and> no_near_duplicates (advanced_search backend q alg k t)"
proof -
  have "deduplicate_results results = dedup_score_descending results" if "score_descending results"
    using that by (simp add: dedup_score_descending_def score_descending_def sorted_desc_id)
  moreover have "list_all (\<lambda>r. r \<in> set (deduplicate_results results)
                    \<or> list_ex (near_duplicates r) (deduplicate_results results)) results"
    using deduplicate_results_dropped [of _ results] by (auto simp: list_all_iff list_ex_iff)
  ultimately show ?thesis
    by (simp add: deduplicate_results_no_near_duplicates advanced_search_no_near_duplicates)
qed

text \<open>A score-descending list of two results with the same content: the first is kept.\<close>

theorem deduplication_no_near_duplicates_witness:
  "score_descending [example_result ''x y'' (9 / 10), example_result ''x y'' (1 / 2)]
   \<and> deduplicate_results [example_result ''x y'' (9 / 10), example_result ''x y'' (1 / 2)]
     = dedup_score_descending [example_result ''x y'' (9 / 10), example_result ''x y'' (1 / 2)]
   \<and> map similarity_score
       (deduplicate_results [example_result ''x y'' (9 / 10), example_result ''x y'' (1 / 2)])
     = [9 / 10]"
proof -
  have h: "score_descending [example_result ''x y'' (9 / 10), example_result ''x y'' (1 / 2)]"
    by (simp add: score_descending_def example_result_def)
  have ev: "map similarity_score
       (deduplicate_results [example_result ''x y'' (9 / 10), example_result ''x y'' (1 / 2)])
     = [9 / 10]"
    by code_simp
  show ?thesis
    using h ev deduplication_no_near_duplicates
      [of "[example_result ''x y'' (9 / 10), example_result ''x y'' (1 / 2)]"
          "example_backend []" "''q''" SEMANTIC "PyInt 5" None]
    by blast
qed

text \<open>
  The same two results with the lower score first: the code keeps the result with score
  0.5, a visit in score-descending order keeps the one with score 0.9.
\<close>

theorem deduplication_order_counterexample:
  "map similarity_score
     (deduplicate_results [example_result ''x y'' (1 / 2), example_result ''x y'' (9 / 10)])
   = [1 / 2]
   \<and> map similarity_score
       (dedup_score_descending [example_result ''x y'' (1 / 2), example_result ''x y'' (9 / 10)])
     = [9 / 10]"
  by code_simp

subsection \<open>Unavailable document store\<close>

lemma get_all_documents_unavailable: "store_unavailable env \<Longrightarrow> get_all_documents env = []"
  by (auto simp: store_unavailable_def get_all_documents_def split: sum.splits)

lemma similarity_search_unavailable:
  assumes "store_unavailable env" and "nothing_cached env"
  shows "similarity_search env q v t a = []"
proof -
  have docs: "get_all_documents env = []" using assms(1) by (rule get_all_documents_unavailable)
  from assms(2) have "case cache_get env (q, v, a) of Inr (Some (d # ds)) \<Rightarrow> False | _ \<Rightarrow> True"
    unfolding nothing_cached_def by blast
  then show ?thesis
    by (simp add: similarity_search_def Let_def docs split: sum.splits option.splits list.splits)
qed

lemma make_query_text: "text (make_query q alg v t) = q"
  by (simp add: make_query_def)

lemma combine_search_results_empty: "combine_search_results [] [] = []"
  by (simp add: combine_search_results_def sorted_desc_def)

text \<open>
  Claim C4, as the code has it. When the document store is unavailable (the retrieval
  query raises or yields no usable row) and the cache holds no non-empty result list,
  \<^verbatim>\<open>similarity_search\<close> returns the empty list for every query, \<^verbatim>\<open>top_k\<close>,
  threshold and algorithm name, and so does \<^verbatim>\<open>advanced_search\<close> over the RAG engine
  for every algorithm and integer \<^verbatim>\<open>top_k\<close>; neither raises.
\<close>

theorem store_unavailable_empty_results:
  assumes "store_unavailable env" and "nothing_cached env"
  shows "similarity_search env q v t a = []
         \<and> advanced_search (rag_backend env backend) q alg (PyInt k) threshold_arg = []"
proof -
  have base: "base_search (rag_backend env backend) q' v' t' a' = Inr []" for q' v' t' a'
    using similarity_search_unavailable [OF assms]
    by (simp add: rag_backend_def rag_search_def)
  have call: "call_base (rag_backend env backend) (make_query q alg' (PyInt k) threshold_arg) t' a'
      = Inr []" for t' a' alg'
    by (simp add: call_base_def make_query_fields make_query_text base)
  have sem: "semantic_search (rag_backend env backend) (make_query q alg' (PyInt k) threshold_arg) = []" for alg'
    by (simp add: semantic_search_def call convert_results_def)
  have kw: "keyword_search (rag_backend env backend) (make_query q alg' (PyInt k) threshold_arg) = []" for alg'
    by (simp add: keyword_search_def call convert_results_def)
  have fz: "fuzzy_search (rag_backend env backend) (make_query q alg' (PyInt k) threshold_arg) = []" for alg'
    by (simp add: fuzzy_search_def call convert_results_def)
  have cx: "contextual_search (rag_backend env backend) (make_query q alg' (PyInt k) threshold_arg) = []" for alg'
    by (simp add: contextual_search_def call convert_results_def)
  have hy: "hybrid_search (rag_backend env backend) (make_query q alg' (PyInt k) threshold_arg) = Inr []" for alg'
    by (simp add: hybrid_search_def sem kw combine_search_results_empty make_query_fields Let_def)
  have route: "route_search (rag_backend env backend) (make_query q alg (PyInt k) threshold_arg) = Inr []"
    by (simp add: route_search_def sem kw fz cx hy make_query_fields split: SearchAlgorithm.splits)
  have post: "post_process_results [] (make_query q alg (PyInt k) threshold_arg) = Inr []"
    by (simp add: post_process_results_def deduplicate_results_def sorted_desc_def make_query_fields)
  have "advanced_search (rag_backend env backend) q alg (PyInt k) threshold_arg = []"
    by (simp add: advanced_search_def search_body_def route post)
  with similarity_search_unavailable [OF assms] show ?thesis by simp
qed

text \<open>A store whose query raises, with an empty cache.\<close>

theorem store_unavailable_empty_results_witness:
  "store_unavailable (example_environment None) \<and> nothing_cached (example_environment None)
   \<and> similarity_search (example_environment None) ''q'' (PyInt 5) None ''hybrid'' = []
   \<and> advanced_search (rag_backend (example_environment None) (example_backend []))
        ''q'' HYBRID (PyInt 5) None = []"
proof -
  have h1: "store_unavailable (example_environment None)"
    by (simp add: store_unavailable_def example_environment_def)
  have h2: "nothing_cached (example_environment None)"
    by (simp add: nothing_cached_def example_environment_def)
  show ?thesis
    using h1 h2 store_unavailable_empty_results [OF h1 h2] by simp
qed

text \<open>
  The same store with a cached result list: the cache is read before the store, so the
  cached document is returned, by \<^verbatim>\<open>similarity_search\<close> and through it by
  \<^verbatim>\<open>advanced_search\<close>, although the store is unavailable.
\<close>

theorem store_unavailable_cache_counterexample:
  "store_unavailable (example_environment (Some [example_doc ''1'' ''alpha'' (9 / 10)]))
   \<and> map doc_id (similarity_search (example_environment (Some [example_doc ''1'' ''alpha'' (9 / 10)]))
                   ''q'' (PyInt 5) None ''hybrid'') = [''1'']
   \<and> map chunk_id
       (advanced_search
          (rag_backend (example_environment (Some [example_doc ''1'' ''alpha'' (9 / 10)]))
             (example_backend []))
          ''q'' SEMANTIC (PyInt 5) None) = [''chunk_0'']"
  by (simp add: store_unavailable_def example_environment_def similarity_search_def example_doc_def
      advanced_search_def search_body_def make_query_def semantic_search_def call_base_def
      rag_backend_def rag_search_def convert_results_def convert_result_def dict_get_def
      post_process_results_def deduplicate_results_def sorted_desc_def active_threshold_def
      example_backend_def Let_def digits_def route_search_def)

subsection \<open>Coordination of several strategies\<close>

lemma agent_value_inj: "agent_value a = agent_value b \<Longrightarrow> a = b"
  by (cases a; cases b) simp_all

lemma dict_set_new: "key \<notin> fst ` set m \<Longrightarrow> dict_set m key v = m @ [(key, v)]"
  by (induction m) auto

lemma collect_step:
  "(case task of (i, agent) \<Rightarrow> \<lambda>results.
      case run i agent of
        Inr reply \<Rightarrow> dict_set results (agent_value agent) reply
      | Inl message \<Rightarrow> dict_set results (agent_value agent) (error_entry message)) results
   = dict_set results (fst (expected_entry run task)) (snd (expected_entry run task))"
  by (cases task) (simp add: expected_entry_def split: sum.splits)

lemma fold_collect:
  assumes "distinct (map snd tasks)"
    and "fst ` set acc \<inter> agent_value ` snd ` set tasks = {}"
  shows "fold (\<lambda>(i, agent) results.
             case run i agent of
               Inr reply \<Rightarrow> dict_set results (agent_value agent) reply
             | Inl message \<Rightarrow> dict_set results (agent_value agent) (error_entry message))
           tasks acc
         = acc @ map (expected_entry run) tasks"
  using assms
proof (induction tasks arbitrary: acc)
  case Nil
  then show ?case by simp
next
  case (Cons task tasks)
  have key: "fst (expected_entry run task) = agent_value (snd task)"
    by (simp add: expected_entry_def)
  from Cons.prems(2) have new: "agent_value (snd task) \<notin> fst ` set acc" by auto
  have step: "dict_set acc (fst (expected_entry run task)) (snd (expected_entry run task))
      = acc @ [expected_entry run task]"
  proof -
    have "expected_entry run task = (agent_value (snd task), snd (expected_entry run task))"
      by (simp add: expected_entry_def)
    with new show ?thesis by (simp add: dict_set_new key)
  qed
  have d: "distinct (map snd tasks)" using Cons.prems(1) by simp
  have "agent_value (snd task) \<notin> agent_value ` snd ` set tasks"
  proof
    assume "agent_value (snd task) \<in> agent_value ` snd ` set tasks"
    then obtain t where "t \<in> set tasks" "agent_value (snd task) = agent_value (snd t)" by auto
    then have "snd task \<in> snd ` set tasks" using agent_value_inj by force
    with Cons.prems(1) show False by simp
  qed
  with Cons.prems(2) have disj:
    "fst ` set (acc @ [expected_entry run task]) \<inter> agent_value ` snd ` set tasks = {}"
    by (auto simp: key)
  show ?case
    using Cons.IH [OF d disj] by (simp add: collect_step step)
qed

lemma collect_results_distinct:
  "distinct (map snd tasks) \<Longrightarrow> collect_results run tasks = map (expected_entry run) tasks"
  using fold_collect [of tasks "[]" run] by (simp add: collect_results_def)

lemma error_entry_not_successful: "\<not> successful (error_entry message)"
  by (simp add: successful_def error_entry_def)

lemma filter_successful_survivors:
  assumes "list_all (\<lambda>(i, agent). raised (run i agent) \<or> survived (run i agent)) tasks"
  shows "filter (\<lambda>item. successful (snd item)) (map (expected_entry run) tasks) = survivors run tasks"
  using assms
proof (induction tasks)
  case Nil
  show ?case by (simp add: survivors_def)
next
  case (Cons task tasks)
  obtain i agent where t: "task = (i, agent)" by (cases task)
  from Cons.prems have rest: "list_all (\<lambda>(i, agent). raised (run i agent) \<or> survived (run i agent)) tasks"
    and here: "raised (run i agent) \<or> survived (run i agent)" by (simp_all add: t)
  have IH: "filter (\<lambda>item. successful (snd item)) (map (expected_entry run) tasks) = survivors run tasks"
    using rest by (rule Cons.IH)
  have tail: "survivors run (task # tasks) =
      (case run i agent of Inl message \<Rightarrow> [] | Inr reply \<Rightarrow> [(agent_value agent, reply)])
      @ survivors run tasks"
    by (simp add: survivors_def t)
  show ?case
  proof (cases "run i agent")
    case (Inl message)
    then have head: "expected_entry run task = (agent_value agent, error_entry message)"
      by (simp add: expected_entry_def t)
    from Inl show ?thesis
      by (simp add: tail IH head error_entry_not_successful)
  next
    case (Inr reply)
    then have head: "expected_entry run task = (agent_value agent, reply)"
      by (simp add: expected_entry_def t)
    from Inr here have "successful reply" by (simp add: raised_def survived_def)
    with Inr show ?thesis by (simp add: tail IH head)
  qed
qed

lemma survivors_length: "length (survivors run tasks) + failures run tasks = length tasks"
proof (induction tasks)
  case Nil
  show ?case by (simp add: survivors_def failures_def)
next
  case (Cons task tasks)
  obtain i agent where t: "task = (i, agent)" by (cases task)
  from Cons show ?case
    by (cases "run i agent") (simp_all add: survivors_def failures_def t raised_def)
qed

lemma expected_entry_lookup:
  assumes "distinct (map snd tasks)" and "task \<in> set tasks"
  shows "map_of (map (expected_entry run) tasks) (agent_value (snd task))
         = Some (snd (expected_entry run task))"
proof -
  have "inj_on agent_value (set (map snd tasks))"
    by (rule inj_onI) (rule agent_value_inj)
  with assms(1) have "distinct (map agent_value (map snd tasks))"
    by (subst distinct_map) blast
  then have dist: "distinct (map fst (map (expected_entry run) tasks))"
    by (simp add: comp_def expected_entry_def)
  have "(agent_value (snd task), snd (expected_entry run task)) \<in> set (map (expected_entry run) tasks)"
    using assms(2) by (force simp: expected_entry_def)
  with dist show ?thesis by (rule map_of_is_SomeI)
qed

text \<open>
  Claim C5, as the code has it. Only the first three selected strategy types are
  launched. When the launched types are pairwise distinct, \<open>N\<close> in number, and each
  launched strategy either raises or returns a response without an error, then every
  launched strategy has its entry in the result dictionary (the error entry with the
  message for one that raised, its reply otherwise); when fewer than \<open>N\<close> raised, the
  answer is the concatenation of the survivors' responses, each under its labelled
  heading, in launch order; when all \<open>N\<close> raised, the explicit all-failed result is
  returned. The call returns a result in every case.
\<close>

theorem coordinate_agents_captures_failures:
  assumes "distinct (map snd (launched_agents q types))"
    and "list_all (\<lambda>(i, agent). raised (run i agent) \<or> survived (run i agent))
           (launched_agents q types)"
  shows "list_all (\<lambda>task. map_of (agent_results (coordinate_agents run q types))
                            (agent_value (snd task))
                          = Some (snd (expected_entry run task)))
           (launched_agents q types)
       \<and> (failures run (launched_agents q types) < length (launched_agents q types) \<longrightarrow>
            response (coordinate_agents run q types)
              = join (newline @ newline)
                  (map perspective (survivors run (launched_agents q types)))
            \<and> error (coordinate_agents run q types) = None)
       \<and> (failures run (launched_agents q types) = length (launched_agents q types) \<longrightarrow>
            response (coordinate_agents run q types) = ''All agents failed to process the query.''
            \<and> error (coordinate_agents run q types) = Some ''Agent coordination failed'')"
proof -
  let ?tasks = "launched_agents q types"
  have coll: "collect_results run ?tasks = map (expected_entry run) ?tasks"
    using assms(1) by (rule collect_results_distinct)
  have succ: "filter (\<lambda>item. successful (snd item)) (collect_results run ?tasks) = survivors run ?tasks"
    unfolding coll using assms(2) by (rule filter_successful_survivors)
  have res: "agent_results (coordinate_agents run q types) = map (expected_entry run) ?tasks"
    by (simp add: coordinate_agents_def synthesize_agent_results_def Let_def coll)
  have entries: "list_all (\<lambda>task. map_of (agent_results (coordinate_agents run q types))
                            (agent_value (snd task))
                          = Some (snd (expected_entry run task))) ?tasks"
    unfolding res list_all_iff using expected_entry_lookup [OF assms(1)] by blast
  have len: "length (survivors run ?tasks) + failures run ?tasks = length ?tasks"
    by (rule survivors_length)
  have some: "response (coordinate_agents run q types)
              = join (newline @ newline) (map perspective (survivors run ?tasks))
            \<and> error (coordinate_agents run q types) = None"
    if "failures run ?tasks < length ?tasks"
  proof -
    from that len have "survivors run ?tasks \<noteq> []" by auto
    then show ?thesis
      by (simp add: coordinate_agents_def synthesize_agent_results_def Let_def succ)
  qed
  have none: "response (coordinate_agents run q types) = ''All agents failed to process the query.''
            \<and> error (coordinate_agents run q types) = Some ''Agent coordination failed''"
    if "failures run ?tasks = length ?tasks"
  proof -
    from that len have "survivors run ?tasks = []" by auto
    then show ?thesis
      by (simp add: coordinate_agents_def synthesize_agent_results_def Let_def succ)
  qed
  from entries some none show ?thesis by blast
qed

text \<open>
  Three launched strategies of which one raises, and the same three when all raise.
\<close>

lemma example_launch:
  "launched_agents ''q'' [RESEARCH, ANALYTICAL, GENERAL]
   = [(0, RESEARCH), (1, ANALYTICAL), (2, GENERAL)]"
  by code_simp

theorem coordinate_agents_captures_failures_witness:
  "distinct (map snd (launched_agents ''q'' [RESEARCH, ANALYTICAL, GENERAL]))
   \<and> list_all (\<lambda>(i, agent). raised (example_run i agent) \<or> survived (example_run i agent))
        (launched_agents ''q'' [RESEARCH, ANALYTICAL, GENERAL])
   \<and> list_all (\<lambda>(i, agent). raised (failing_run i agent) \<or> survived (failing_run i agent))
        (launched_agents ''q'' [RESEARCH, ANALYTICAL, GENERAL])
   \<and> failures example_run (launched_agents ''q'' [RESEARCH, ANALYTICAL, GENERAL]) = 1
   \<and> map_of (agent_results (coordinate_agents example_run ''q'' [RESEARCH, ANALYTICAL, GENERAL]))
        ''research'' = Some (error_entry ''timeout'')
   \<and> response (coordinate_agents example_run ''q'' [RESEARCH, ANALYTICAL, GENERAL])
     = ''**ANALYTICAL PERSPECTIVE:**'' @ newline @ ''answer of analytical'' @ newline @ newline
       @ ''**GENERAL PERSPECTIVE:**'' @ newline @ ''answer of general''
   \<and> failures failing_run (launched_agents ''q'' [RESEARCH, ANALYTICAL, GENERAL]) = 3
   \<and> response (coordinate_agents failing_run ''q'' [RESEARCH, ANALYTICAL, GENERAL])
     = ''All agents failed to process the query.''
   \<and> error (coordinate_agents failing_run ''q'' [RESEARCH, ANALYTICAL, GENERAL])
     = Some ''Agent coordination failed''"
proof -
  have d: "distinct (map snd (launched_agents ''q'' [RESEARCH, ANALYTICAL, GENERAL]))"
    by (simp add: example_launch)
  have h1: "list_all (\<lambda>(i, agent). raised (example_run i agent) \<or> survived (example_run i agent))
        (launched_agents ''q'' [RESEARCH, ANALYTICAL, GENERAL])"
    by (simp add: example_launch example_run_def raised_def survived_def successful_def)
  have h2: "list_all (\<lambda>(i, agent). raised (failing_run i agent) \<or> survived (failing_run i agent))
        (launched_agents ''q'' [RESEARCH, ANALYTICAL, GENERAL])"
    by (simp add: example_launch failing_run_def raised_def)
  have f1: "failures example_run (launched_agents ''q'' [RESEARCH, ANALYTICAL, GENERAL]) = 1"
    by (simp add: example_launch failures_def example_run_def raised_def)
  have f2: "failures failing_run (launched_agents ''q'' [RESEARCH, ANALYTICAL, GENERAL]) = 3"
    by (simp add: example_launch failures_def failing_run_def raised_def)
  have s1: "join (newline @ newline)
              (map perspective (survivors example_run (launched_agents ''q'' [RESEARCH, ANALYTICAL, GENERAL])))
     = ''**ANALYTICAL PERSPECTIVE:**'' @ newline @ ''answer of analytical'' @ newline @ newline
       @ ''**GENERAL PERSPECTIVE:**'' @ newline @ ''answer of general''"
    unfolding example_launch by code_simp
  have e1: "snd (expected_entry example_run (0, RESEARCH)) = error_entry ''timeout''"
    by (simp add: expected_entry_def example_run_def)
  show ?thesis
    using d h1 h2 f1 f2 s1 e1
      coordinate_agents_captures_failures [OF d h1]
      coordinate_agents_captures_failures [OF d h2]
    by (simp add: example_launch)
qed

text \<open>
  Four selected strategies of which the first three raise and the fourth would answer:
  three failures out of four, yet the fourth is never launched, the result is the
  all-failed one, and the result dictionary has no entry for the fourth.
\<close>

theorem coordinate_agents_truncation_counterexample:
  "failures example_run (zip [0 ..< 4] [RESEARCH, CREATIVE, TECHNICAL, SUMMARY]) = 3
   \<and> survived (example_run 3 SUMMARY)
   \<and> response (coordinate_agents example_run ''q'' [RESEARCH, CREATIVE, TECHNICAL, SUMMARY])
     = ''All agents failed to process the query.''
   \<and> map_of (agent_results
         (coordinate_agents example_run ''q'' [RESEARCH, CREATIVE, TECHNICAL, SUMMARY]))
       ''summary'' = None"
  by code_simp

subsection \<open>Words of a text\<close>

lemma tokens_skip:
  "\<forall>c\<in>set u. \<not> sep c \<Longrightarrow> tokens sep (u @ rest) w = tokens sep rest (w @ u)"
  by (induction u arbitrary: w) simp_all

lemma tokens_clean:
  "\<forall>c\<in>set w. \<not> sep c \<Longrightarrow> t \<in> set (tokens sep s w) \<Longrightarrow> t \<noteq> [] \<and> (\<forall>c\<in>set t. \<not> sep c)"
proof (induction s arbitrary: w)
  case Nil
  then show ?case by (auto split: if_splits)
next
  case (Cons c s)
  show ?case
  proof (cases "sep c")
    case True
    show ?thesis
    proof (cases "w = []")
      case True
      with \<open>sep c\<close> Cons.prems(2) have "t \<in> set (tokens sep s [])" by simp
      then show ?thesis using Cons.IH [of "[]"] by simp
    next
      case False
      with \<open>sep c\<close> Cons.prems(2) have "t = w \<or> t \<in> set (tokens sep s [])" by simp
      then show ?thesis using Cons.IH [of "[]"] Cons.prems(1) False by auto
    qed
  next
    case False
    with Cons.prems(2) have "t \<in> set (tokens sep s (w @ [c]))" by simp
    moreover from False Cons.prems(1) have "\<forall>d\<in>set (w @ [c]). \<not> sep d" by simp
    ultimately show ?thesis using Cons.IH [of "w @ [c]"] by blast
  qed
qed

lemma tokens_join:
  assumes "sep s" and "\<forall>w\<in>set ws. w \<noteq> [] \<and> (\<forall>c\<in>set w. \<not> sep c)"
  shows "tokens sep (join [s] ws) [] = ws"
  using assms(2)
proof (induction "[s]" ws rule: join.induct)
  case 1
  show ?case by simp
next
  case (2 w)
  then have "tokens sep (w @ []) [] = tokens sep [] ([] @ w)"
    by (intro tokens_skip) simp
  with 2 show ?case by simp
next
  case (3 w v ws)
  then have clean: "\<forall>c\<in>set w. \<not> sep c" and ne: "w \<noteq> []" by simp_all
  have "tokens sep (w @ (s # join [s] (v # ws))) [] = tokens sep (s # join [s] (v # ws)) ([] @ w)"
    using clean by (rule tokens_skip)
  also have "\<dots> = w # tokens sep (join [s] (v # ws)) []"
    using assms(1) ne by simp
  also have "tokens sep (join [s] (v # ws)) [] = v # ws"
    using 3 by simp
  finally show ?case by simp
qed

lemma split_clean: "t \<in> set (split s) \<Longrightarrow> t \<noteq> [] \<and> (\<forall>c\<in>set t. \<not> is_space c)"
  unfolding split_def using tokens_clean [of "[]" is_space t s] by simp

lemma is_space_blank: "is_space (CHR '' '')"
  by (simp add: is_space_def)

lemma split_join:
  "\<forall>w\<in>set ws. w \<noteq> [] \<and> (\<forall>c\<in>set w. \<not> is_space c) \<Longrightarrow> split (join '' '' ws) = ws"
  unfolding split_def by (rule tokens_join [of is_space "CHR '' ''", OF is_space_blank])

lemma join_suffix:
  "ws \<noteq> [] \<Longrightarrow> join sep ws @ s = join sep (butlast ws @ [last ws @ s])"
  by (induction sep ws rule: join.induct) simp_all

lemma dots_clean: "\<forall>c\<in>set ''...''. \<not> is_space c"
  by (simp add: is_space_def)

lemma length_split_join_dots:
  assumes "\<forall>w\<in>set ws. w \<noteq> [] \<and> (\<forall>c\<in>set w. \<not> is_space c)"
  shows "length (split (join '' '' ws @ ''...'')) = max 1 (length ws)"
proof (cases "ws = []")
  case True
  have "split ''...'' = [''...'']" by code_simp
  with True show ?thesis by simp
next
  case False
  let ?ws' = "butlast ws @ [last ws @ ''...'']"
  have "\<forall>w\<in>set ?ws'. w \<noteq> [] \<and> (\<forall>c\<in>set w. \<not> is_space c)"
  proof
    fix w assume "w \<in> set ?ws'"
    then consider "w \<in> set (butlast ws)" | "w = last ws @ ''...''" by auto
    then show "w \<noteq> [] \<and> (\<forall>c\<in>set w. \<not> is_space c)"
    proof cases
      case 1
      then have "w \<in> set ws" by (rule in_set_butlastD)
      with assms show ?thesis by blast
    next
      case 2
      from False have "last ws \<in> set ws" by simp
      with assms have "\<forall>c\<in>set (last ws). \<not> is_space c" by blast
      with 2 dots_clean show ?thesis by auto
    qed
  qed
  then have "split (join '' '' ?ws') = ?ws'" by (rule split_join)
  then have "length (split (join '' '' ws @ ''...'')) = length ws"
    using False by (simp add: join_suffix)
  moreover from False have "max 1 (length ws) = length ws" by (cases ws) simp_all
  ultimately show ?thesis by simp
qed

subsection \<open>Truncation to a token budget\<close>

lemma search_left_invariant:
  assumes "int (count_tokens enc (join '' '' (take left words))) \<le> m"
  shows "int (count_tokens enc (join '' '' (take (search_left enc words m left right) words))) \<le> m"
  using assms
proof (induction enc words m left right rule: search_left.induct)
  case (1 enc words m left right)
  show ?case
  proof (cases "left < right")
    case False
    with "1.prems" show ?thesis by (subst search_left.simps) simp
  next
    case True
    let ?mid = "(left + right + 1) div 2"
    show ?thesis
    proof (cases "int (count_tokens enc (join '' '' (take ?mid words))) \<le> m")
      case fits: True
      have "int (count_tokens enc (join '' '' (take (search_left enc words m ?mid right) words))) \<le> m"
        using "1.IH"(1) [OF True refl fits fits] .
      with True fits show ?thesis by (subst search_left.simps) (simp add: Let_def)
    next
      case over: False
      have "int (count_tokens enc (join '' '' (take (search_left enc words m left (?mid - 1)) words))) \<le> m"
        using "1.IH"(2) [OF True refl over "1.prems"] .
      with True over show ?thesis by (subst search_left.simps) (simp add: Let_def)
    qed
  qed
qed

lemma count_tokens_empty: "count_tokens None [] = 0"
  by (simp add: count_tokens_def estimate_tokens_def split_def)

lemma truncate_to_tokens_bound:
  assumes "1 \<le> m"
  shows "int (count_tokens None (truncate_to_tokens None s m)) \<le> m"
proof (cases "int (count_tokens None s) \<le> m")
  case True
  then show ?thesis by (simp add: truncate_to_tokens_def)
next
  case False
  define kept where "kept = take (search_left None (split s) m 0 (length (split s))) (split s)"
  have clean: "\<forall>w\<in>set kept. w \<noteq> [] \<and> (\<forall>c\<in>set w. \<not> is_space c)"
    unfolding kept_def using split_clean by (blast dest: in_set_takeD)
  have "int (count_tokens None (join '' '' (take 0 (split s)))) \<le> m"
    using assms by (simp add: count_tokens_empty)
  then have inv: "int (count_tokens None (join '' '' kept)) \<le> m"
    unfolding kept_def by (rule search_left_invariant)
  have res: "truncate_to_tokens None s m = join '' '' kept @ ''...''"
    using False by (simp add: truncate_to_tokens_def Let_def kept_def)
  have len: "length (split (join '' '' kept @ ''...'')) = max 1 (length kept)"
    using clean by (rule length_split_join_dots)
  have len0: "length (split (join '' '' kept)) = length kept"
    using clean by (simp add: split_join)
  show ?thesis
  proof (cases "kept = []")
    case True
    with len have "length (split ''...'') = 1" by simp
    with assms True show ?thesis by (simp add: res count_tokens_def estimate_tokens_def)
  next
    case False
    then have "max 1 (length kept) = length kept" by (cases kept) simp_all
    with inv show ?thesis by (simp add: res count_tokens_def estimate_tokens_def len len0)
  qed
qed

subsection \<open>Context assembly\<close>

lemma context_loop_layout:
  assumes "used \<le> max_context_tokens"
  shows "\<exists>j tail. j \<le> length rs
      \<and> context_loop None i rs parts used = parts @ take j (entries_from i rs) @ tail
      \<and> used + sum_list (map (count_tokens None) (take j (entries_from i rs))) \<le> max_context_tokens
      \<and> (tail = []
         \<or> (j < length rs
            \<and> 100 < int max_context_tokens
                     - int (used + sum_list (map (count_tokens None) (take j (entries_from i rs)))) - 50
            \<and> tail = [truncated_entry None (i + j) (rs ! j)
                        (int max_context_tokens
                         - int (used + sum_list (map (count_tokens None) (take j (entries_from i rs))))
                         - 50)]))"
  using assms
proof (induction rs arbitrary: i parts used)
  case Nil
  show ?case using Nil.prems by simp
next
  case (Cons r rest)
  let ?entry = "full_entry i r"
  show ?case
  proof (cases "used + count_tokens None ?entry > max_context_tokens")
    case True
    let ?rem = "int max_context_tokens - int used - 50"
    show ?thesis
    proof (cases "?rem > 100")
      case big: True
      have "context_loop None i (r # rest) parts used = parts @ [truncated_entry None i r ?rem]"
        using True big by (simp add: Let_def full_entry_def truncated_entry_def)
      with big Cons.prems show ?thesis
        by (intro exI [of _ 0] exI [of _ "[truncated_entry None i r ?rem]"]) simp
    next
      case small: False
      have "context_loop None i (r # rest) parts used = parts"
        using True small by (simp add: Let_def full_entry_def)
      with Cons.prems show ?thesis
        by (intro exI [of _ 0] exI [of _ "[]"]) simp
    qed
  next
    case False
    then have fits: "used + count_tokens None ?entry \<le> max_context_tokens" by simp
    have step: "context_loop None i (r # rest) parts used
        = context_loop None (Suc i) rest (parts @ [?entry]) (used + count_tokens None ?entry)"
      using False by (simp add: Let_def full_entry_def)
    from Cons.IH [OF fits, of "Suc i" "parts @ [?entry]"]
    obtain j tail where j: "j \<le> length rest"
      and eq: "context_loop None (Suc i) rest (parts @ [?entry]) (used + count_tokens None ?entry)
                = (parts @ [?entry]) @ take j (entries_from (Suc i) rest) @ tail"
      and sum: "used + count_tokens None ?entry
                + sum_list (map (count_tokens None) (take j (entries_from (Suc i) rest)))
                \<le> max_context_tokens"
      and tl: "tail = []
         \<or> (j < length rest
            \<and> 100 < int max_context_tokens
                     - int (used + count_tokens None ?entry
                            + sum_list (map (count_tokens None) (take j (entries_from (Suc i) rest)))) - 50
            \<and> tail = [truncated_entry None (Suc i + j) (rest ! j)
                        (int max_context_tokens
                         - int (used + count_tokens None ?entry
                                + sum_list (map (count_tokens None) (take j (entries_from (Suc i) rest))))
                         - 50)])"
      by blast
    have tk: "take (Suc j) (entries_from i (r # rest)) = ?entry # take j (entries_from (Suc i) rest)"
      by simp
    have s: "used + sum_list (map (count_tokens None) (take (Suc j) (entries_from i (r # rest))))
        = used + count_tokens None ?entry
          + sum_list (map (count_tokens None) (take j (entries_from (Suc i) rest)))"
      unfolding tk by simp
    have c1: "Suc j \<le> length (r # rest)" using j by simp
    have c2: "context_loop None i (r # rest) parts used
        = parts @ take (Suc j) (entries_from i (r # rest)) @ tail"
      unfolding step eq tk by simp
    have c3: "used + sum_list (map (count_tokens None) (take (Suc j) (entries_from i (r # rest))))
        \<le> max_context_tokens"
      unfolding s by (rule sum)
    have idx: "(r # rest) ! Suc j = rest ! j" "i + Suc j = Suc i + j" by simp_all
    have c4: "tail = []
         \<or> (Suc j < length (r # rest)
            \<and> 100 < int max_context_tokens
                     - int (used + sum_list (map (count_tokens None)
                              (take (Suc j) (entries_from i (r # rest))))) - 50
            \<and> tail = [truncated_entry None (i + Suc j) ((r # rest) ! Suc j)
                        (int max_context_tokens
                         - int (used + sum_list (map (count_tokens None)
                              (take (Suc j) (entries_from i (r # rest)))))
                         - 50)])"
      unfolding s idx using tl by auto
    from c1 c2 c3 c4 show ?thesis by blast
  qed
qed

lemma count_no_context: "count_tokens None ''No relevant context found.'' = 5"
  by code_simp

lemma prepare_optimized_context_bound:
  "count_tokens None (prepare_optimized_context None results) \<le> max_context_tokens"
proof (cases "results = []")
  case True
  then show ?thesis by (simp add: prepare_optimized_context_def count_no_context max_context_tokens_def)
next
  case False
  let ?joined = "join newline (context_loop None 0 results [] 0)"
  show ?thesis
  proof (cases "count_tokens None ?joined > max_context_tokens")
    case True
    have "int (count_tokens None (truncate_to_tokens None ?joined (int max_context_tokens)))
          \<le> int max_context_tokens"
      by (rule truncate_to_tokens_bound) (simp add: max_context_tokens_def)
    with True False show ?thesis by (simp add: prepare_optimized_context_def Let_def)
  next
    case over: False
    with False show ?thesis by (simp add: prepare_optimized_context_def Let_def)
  qed
qed

text \<open>
  Claim C6, for the token manager without a loaded tokenizer, whose counter is the
  word-count estimate. For every list of search results the token count of the
  assembled context, measured by \<^verbatim>\<open>count_tokens\<close>, is at most the budget of 6000. The parts the loop
  collects are the full entries of the first \<open>j\<close> results, whose token counts add up to at
  most the budget, followed by nothing or by one more entry: that of result \<open>j\<close>, the
  first that did not fit, with its content truncated to the remaining budget (the budget
  minus the tokens used minus 50, and more than 100). No later result contributes. The
  returned text is the fixed message for an empty list, or these parts joined by line
  feeds, or that text truncated once more to the budget.
\<close>

theorem prepare_optimized_context_budget:
  "count_tokens None (prepare_optimized_context None results) \<le> max_context_tokens
   \<and> (\<exists>j tail remaining.
        j \<le> length results
        \<and> context_loop None 0 results [] 0 = take j (entries_from 0 results) @ tail
        \<and> sum_list (map (count_tokens None) (take j (entries_from 0 results))) \<le> max_context_tokens
        \<and> (tail = []
           \<or> (j < length results \<and> 100 < remaining
              \<and> remaining = int max_context_tokens
                  - int (sum_list (map (count_tokens None) (take j (entries_from 0 results)))) - 50
              \<and> tail = [truncated_entry None j (results ! j) remaining]
              \<and> int (count_tokens None (truncate_to_tokens None (entry_content (results ! j)) remaining))
                  \<le> remaining)))
   \<and> (prepare_optimized_context None results = ''No relevant context found.''
      \<or> prepare_optimized_context None results = join newline (context_loop None 0 results [] 0)
      \<or> prepare_optimized_context None results
          = truncate_to_tokens None (join newline (context_loop None 0 results [] 0))
              (int max_context_tokens))"
proof -
  obtain j tail where j: "j \<le> length results"
    and eq: "context_loop None 0 results [] 0 = take j (entries_from 0 results) @ tail"
    and sum: "sum_list (map (count_tokens None) (take j (entries_from 0 results))) \<le> max_context_tokens"
    and tl: "tail = []
         \<or> (j < length results
            \<and> 100 < int max_context_tokens
                     - int (sum_list (map (count_tokens None) (take j (entries_from 0 results)))) - 50
            \<and> tail = [truncated_entry None j (results ! j)
                        (int max_context_tokens
                         - int (sum_list (map (count_tokens None) (take j (entries_from 0 results))))
                         - 50)])"
    using context_loop_layout [of 0 results 0 "[]"] by auto
  define remaining where "remaining = int max_context_tokens
                  - int (sum_list (map (count_tokens None) (take j (entries_from 0 results)))) - 50"
  have "int (count_tokens None (truncate_to_tokens None (entry_content (results ! j)) remaining)) \<le> remaining"
    if "100 < remaining"
    using that by (intro truncate_to_tokens_bound) simp
  with tl have tl': "tail = []
           \<or> (j < length results \<and> 100 < remaining
              \<and> remaining = int max_context_tokens
                  - int (sum_list (map (count_tokens None) (take j (entries_from 0 results)))) - 50
              \<and> tail = [truncated_entry None j (results ! j) remaining]
              \<and> int (count_tokens None (truncate_to_tokens None (entry_content (results ! j)) remaining))
                  \<le> remaining)"
    unfolding remaining_def by blast
  have shape: "prepare_optimized_context None results = ''No relevant context found.''
      \<or> prepare_optimized_context None results = join newline (context_loop None 0 results [] 0)
      \<or> prepare_optimized_context None results
          = truncate_to_tokens None (join newline (context_loop None 0 results [] 0))
              (int max_context_tokens)"
    by (simp add: prepare_optimized_context_def Let_def)
  from j eq sum tl' shape prepare_optimized_context_bound [of results] show ?thesis by blast
qed

subsection \<open>Scores lie in the unit interval\<close>

lemma unit_scores_zero: "unit_scores (map (\<lambda>doc. (doc, 0)) docs)"
  by (simp add: unit_scores_def list_all_iff)




















end
